theory Spec2Isabelle
  imports Main "HOL-Library.Word"
begin

section \<open>Wire model (pkg/mcp/types.go)\<close>

type_synonym int64 = "64 word"

text \<open>
  A finite \<open>float64\<close> is a dyadic rational: \<open>Finite m e\<close> stands for \<open>m * 2 ^ e\<close>.
  The IEEE doubles are the values with \<open>\<bar>m\<bar> < 2 ^ 53\<close> and \<open>- 1074 \<le> e \<le> 971\<close>
  (\<open>is_float64\<close>), together with the two infinities and NaN.
\<close>

datatype float64 = Finite int int | PosInf | NegInf | NaN

fun is_float64 :: "float64 \<Rightarrow> bool" where
  "is_float64 (Finite m e) = (\<bar>m\<bar> < 2 ^ 53 \<and> - 1074 \<le> e \<and> e \<le> 971)"
| "is_float64 _ = True"

text \<open>The integer part of \<open>m * 2 ^ e\<close>, rounding towards zero as Go's conversion does.\<close>

definition f64_trunc :: "int \<Rightarrow> int \<Rightarrow> int" where
  "f64_trunc m e =
     (if 0 \<le> e then m * 2 ^ nat e else sgn m * (\<bar>m\<bar> div 2 ^ nat (- e)))"

text \<open>
  Go's conversion \<open>int64(f)\<close>. The fraction is discarded; when the result does not fit
  (or \<open>f\<close> is an infinity or NaN) the language leaves the value to the implementation,
  which is the parameter \<open>impl\<close> here.
\<close>

fun int64_of_float64 :: "(float64 \<Rightarrow> int64) \<Rightarrow> float64 \<Rightarrow> int64" where
  "int64_of_float64 impl (Finite m e) =
     (let t = f64_trunc m e
      in if - (2 ^ 63) \<le> t \<and> t < 2 ^ 63 then word_of_int t else impl (Finite m e))"
| "int64_of_float64 impl f = impl f"

text \<open>
  The float \<open>f\<close> has exactly the integer value \<open>v\<close>: the float a JSON decoder
  yields for the number \<open>v\<close> when \<open>v\<close> is representable.
\<close>

fun f64_encodes :: "float64 \<Rightarrow> int \<Rightarrow> bool" where
  "f64_encodes (Finite m e) v = (if 0 \<le> e then m * 2 ^ nat e = v else m = v * 2 ^ nat (- e))"
| "f64_encodes PosInf v = False"
| "f64_encodes NegInf v = False"
| "f64_encodes NaN v = False"

text \<open>
  The dynamic value held by \<open>Message.ID\<close> (an \<open>interface{}\<close>); \<open>None\<close> is \<open>nil\<close>.
  \<open>IDInt\<close> carries the value of a Go \<open>int\<close>; \<open>IDOther\<close> is any other dynamic type.
\<close>

datatype id_value =
    IDInt64 int64
  | IDFloat64 float64
  | IDInt int
  | IDString string
  | IDOther

text \<open>\<open>ErrorInfo\<close>, without its opaque \<open>Data\<close>, which the client never reads.\<close>

record ErrorInfo =
  Code :: int
  Message :: string

definition mcp_Version :: string where
  "mcp_Version = ''2024-11-05''"

datatype ClientInfo = ClientInfo string string

datatype 'j ClientCapabilities = ClientCapabilities "(string \<times> 'j) list" "unit option"

record ServerInfo =
  Name :: string
  Version :: string

record 'j ServerCapabilities =
  Experimental :: "(string \<times> 'j) list"
  Logging :: "unit option"
  Prompts :: "bool option"
  Resources :: "(bool \<times> bool) option"
  Tools :: "bool option"

record 'j InitializeResponse =
  ProtocolVersion :: string
  Capabilities :: "'j ServerCapabilities"
  ServerInfo :: ServerInfo

text \<open>
  The typed request parameters handed to \<open>NewRequest\<close>. The payload type \<open>'j\<close> stands
  for the free-form \<open>interface{}\<close> values; a \<open>map[string]interface{}\<close> is an
  association list.
\<close>

datatype 'j request_params =
    InitializeRequest string "'j ClientCapabilities" ClientInfo
  | ListToolsRequest
  | CallToolRequest string "(string \<times> 'j) list"
  | ListResourcesRequest
  | ListPromptsRequest
  | GetPromptRequest string "(string \<times> 'j) list"
  | ReadResourceRequest string

text \<open>\<open>Message\<close>; \<open>None\<close> in an optional field is \<open>nil\<close>.\<close>

record 'j Message =
  JSONRPC :: string
  ID :: "id_value option"
  Method :: string
  Params :: "'j request_params option"
  Result :: "'j option"
  Error :: "ErrorInfo option"

definition NewRequest :: "id_value \<Rightarrow> string \<Rightarrow> 'j request_params \<Rightarrow> 'j Message" where
  "NewRequest i m p =
     \<lparr>JSONRPC = ''2.0'', ID = Some i, Method = m, Params = Some p, Result = None, Error = None\<rparr>"

definition NewNotification :: "string \<Rightarrow> 'j request_params option \<Rightarrow> 'j Message" where
  "NewNotification m p =
     \<lparr>JSONRPC = ''2.0'', ID = None, Method = m, Params = p, Result = None, Error = None\<rparr>"

section \<open>Decimal integers (strconv)\<close>

definition digit_val :: "char \<Rightarrow> nat option" where
  "digit_val c =
     (let k = (of_char c :: nat) in if 48 \<le> k \<and> k \<le> 57 then Some (k - 48) else None)"

text \<open>The digit loop of \<open>strconv.ParseUint\<close> in base 10: any other byte is a syntax error.\<close>

fun parse_digits :: "nat \<Rightarrow> string \<Rightarrow> nat option" where
  "parse_digits acc [] = Some acc"
| "parse_digits acc (c # cs) =
     (case digit_val c of None \<Rightarrow> None | Some d \<Rightarrow> parse_digits (acc * 10 + d) cs)"

text \<open>
  \<open>strconv.ParseInt(s, 10, 64)\<close>, \<open>None\<close> when it returns an error: the empty string and
  a string with a byte that is no digit are syntax errors, a value outside
  \<open>- 2 ^ 63 .. 2 ^ 63 - 1\<close> is a range error. One leading \<open>+\<close> or \<open>-\<close> is accepted.
\<close>

definition ParseInt :: "string \<Rightarrow> int64 option" where
  "ParseInt s =
     (case s of
        [] \<Rightarrow> None
      | c # cs \<Rightarrow>
          (let neg = (c = CHR ''-'');
               ds = (if c = CHR ''+'' \<or> c = CHR ''-'' then cs else s)
           in if ds = [] then None
              else (case parse_digits 0 ds of
                      None \<Rightarrow> None
                    | Some un \<Rightarrow>
                        if \<not> neg \<and> un \<ge> 2 ^ 63 then None
                        else if neg \<and> un > 2 ^ 63 then None
                        else Some (if neg then - word_of_nat un else word_of_nat un))))"

definition digit_char :: "nat \<Rightarrow> char" where
  "digit_char d = ''0123456789'' ! d"

text \<open>
  The decimal digits of a natural number, most significant first, without padding
  (\<open>digit_char\<close> is only applied to a number below 10).
\<close>

fun utoa :: "nat \<Rightarrow> string" where
  "utoa n = (if n < 10 then [digit_char n] else utoa (n div 10) @ [digit_char (n mod 10)])"

declare utoa.simps [simp del]

text \<open>\<open>strconv.Itoa\<close> and the verb \<open>%d\<close>: a minus sign and the digits of the magnitude.\<close>

definition itoa :: "int \<Rightarrow> string" where
  "itoa i = (if i < 0 then CHR ''-'' # utoa (nat (- i)) else utoa (nat i))"

section \<open>Protocol client: correlation (package client)\<close>

fun isMatchingID :: "(float64 \<Rightarrow> int64) \<Rightarrow> id_value option \<Rightarrow> int64 \<Rightarrow> bool" where
  "isMatchingID impl None requestID = False"
| "isMatchingID impl (Some (IDInt64 i)) requestID = (i = requestID)"
| "isMatchingID impl (Some (IDFloat64 f)) requestID = (int64_of_float64 impl f = requestID)"
| "isMatchingID impl (Some (IDInt i)) requestID = (word_of_int i = requestID)"
| "isMatchingID impl (Some (IDString s)) requestID =
     (case ParseInt s of Some parsedID \<Rightarrow> parsedID = requestID | None \<Rightarrow> False)"
| "isMatchingID impl (Some IDOther) requestID = False"


section \<open>Errors\<close>

text \<open>
  The errors of the client. \<open>Wrap p e\<close> is \<open>fmt.Errorf("p: %w", e)\<close>, \<open>ErrServer p m\<close> is
  \<open>fmt.Errorf("p: %s", m)\<close> for the message \<open>m\<close> of a server's error object, and
  \<open>ErrExternal\<close> is an error raised outside the client (by the transport, the operating
  system or the JSON codec), with its text; \<open>ErrDuringClose errs\<close> is
  \<open>fmt.Errorf("errors during close: %v", errs)\<close>.
\<close>

datatype error =
    ErrNotConnected
  | ErrClientNotInitialized
  | ErrTransportDisconnected
  | ErrRequestTimeout
  | ErrResultNil
  | ErrExternal string
  | ErrServer string string
  | ErrDuringClose "string list"
  | Wrap string error

text \<open>The text of an error, as \<open>Error()\<close> prints it.\<close>

fun error_text :: "error \<Rightarrow> string" where
  "error_text ErrNotConnected = ''client not connected''"
| "error_text ErrClientNotInitialized = ''client not initialized''"
| "error_text ErrTransportDisconnected = ''transport disconnected''"
| "error_text ErrRequestTimeout = ''request timeout''"
| "error_text ErrResultNil = ''result is nil''"
| "error_text (ErrExternal m) = m"
| "error_text (ErrServer p m) = p @ '': '' @ m"
| "error_text (ErrDuringClose errs) =
     ''errors during close: ['' @ concat (case errs of [] \<Rightarrow> [] | e # es \<Rightarrow> e # map ((@) '' '') es) @ '']''"
| "error_text (Wrap p e) = p @ '': '' @ error_text e"

section \<open>The transport as the client sees it (pkg/transport/transport.go)\<close>

text \<open>
  The client holds a \<open>transport.Transport\<close>, an interface. Its behaviour is given by
  scripts: each \<open>Send\<close> takes the next outcome of \<open>t_send_script\<close>, each \<open>Receive\<close> the next
  event of \<open>t_recv_script\<close>, which is a message or an error together with the time the
  call blocked; a call on an exhausted script never returns. \<open>t_calls\<close> records every
  method called on the transport, and \<open>t_clock\<close> is the time that context deadlines
  are read against.
\<close>

datatype 'j recv_event = RecvMessage nat "'j Message" | RecvError nat string

datatype 'j transport_call =
    CallConnect
  | CallClose
  | CallSend "'j Message"
  | CallReceive
  | CallIsConnected

record 'j Transport =
  t_connected :: bool
  t_connect_result :: "string option"
  t_close_result :: "string option"
  t_send_script :: "string option list"
  t_recv_script :: "'j recv_event list"
  t_calls :: "'j transport_call list"
  t_clock :: nat

definition Transport_Connect :: "'j Transport \<Rightarrow> string option \<times> 'j Transport" where
  "Transport_Connect t =
     (case t_connect_result t of
        Some err \<Rightarrow> (Some err, t\<lparr>t_calls := t_calls t @ [CallConnect]\<rparr>)
      | None \<Rightarrow> (None, t\<lparr>t_connected := True, t_calls := t_calls t @ [CallConnect]\<rparr>))"

definition Transport_Close :: "'j Transport \<Rightarrow> string option \<times> 'j Transport" where
  "Transport_Close t =
     (t_close_result t, t\<lparr>t_connected := False, t_calls := t_calls t @ [CallClose]\<rparr>)"

definition Transport_IsConnected :: "'j Transport \<Rightarrow> bool \<times> 'j Transport" where
  "Transport_IsConnected t = (t_connected t, t\<lparr>t_calls := t_calls t @ [CallIsConnected]\<rparr>)"

definition Transport_Send :: "'j Message \<Rightarrow> 'j Transport \<Rightarrow> (string option \<times> 'j Transport) option" where
  "Transport_Send m t =
     (case t_send_script t of
        [] \<Rightarrow> None
      | r # rs \<Rightarrow> Some (r, t\<lparr>t_send_script := rs, t_calls := t_calls t @ [CallSend m]\<rparr>))"

definition Transport_Receive :: "'j Transport \<Rightarrow> ((string + 'j Message) \<times> 'j Transport) option" where
  "Transport_Receive t =
     (case t_recv_script t of
        [] \<Rightarrow> None
      | RecvMessage d m # evs \<Rightarrow>
          Some (Inr m, t\<lparr>t_recv_script := evs, t_calls := t_calls t @ [CallReceive],
                          t_clock := t_clock t + d\<rparr>)
      | RecvError d err # evs \<Rightarrow>
          Some (Inl err, t\<lparr>t_recv_script := evs, t_calls := t_calls t @ [CallReceive],
                           t_clock := t_clock t + d\<rparr>))"

text \<open>
  \<open>context.Context\<close>: its deadline as a point on the clock, \<open>None\<close> without one
  (a cancellation is a deadline at the time it happens).
  \<open>ctx_Done ctx now\<close> says that the channel \<open>ctx.Done()\<close> is closed at time \<open>now\<close>.
\<close>

record Context =
  deadline :: "nat option"

definition ctx_Done :: "Context \<Rightarrow> nat \<Rightarrow> bool" where
  "ctx_Done ctx now = (case deadline ctx of None \<Rightarrow> False | Some d \<Rightarrow> d \<le> now)"

definition WithTimeout :: "Context \<Rightarrow> nat \<Rightarrow> nat \<Rightarrow> Context" where
  "WithTimeout ctx now d =
     \<lparr>deadline = Some (case deadline ctx of None \<Rightarrow> now + d | Some p \<Rightarrow> min p (now + d))\<rparr>"

section \<open>Protocol client (package client)\<close>

text \<open>
  \<open>Client\<close>. The mutex and the logger are left out: the model runs one call at a time
  and log lines are output only.
\<close>

record 'j Client =
  transport :: "'j Transport"
  serverInfo :: "ServerInfo option"
  serverCapabilities :: "'j ServerCapabilities option"
  connected :: bool
  initialized :: bool
  requestID :: int64
  timeout :: nat

record ClientConfig =
  cfg_Name :: string
  cfg_Version :: string
  cfg_Timeout :: nat

text \<open>Times are in seconds: the default timeout is \<open>30 * time.Second\<close>.\<close>

definition NewClient :: "'j Transport \<Rightarrow> ClientConfig \<Rightarrow> 'j Client" where
  "NewClient t config =
     \<lparr>transport = t, serverInfo = None, serverCapabilities = None, connected = False,
      initialized = False, requestID = 0,
      timeout = (if cfg_Timeout config = 0 then 30 else cfg_Timeout config)\<rparr>"

definition Connect :: "'j Client \<Rightarrow> error option \<times> 'j Client" where
  "Connect c =
     (if connected c then (None, c)
      else (case Transport_Connect (transport c) of
              (Some err, t) \<Rightarrow>
                (Some (Wrap ''failed to connect transport'' (ErrExternal err)), c\<lparr>transport := t\<rparr>)
            | (None, t) \<Rightarrow> (None, c\<lparr>transport := t, connected := True\<rparr>)))"

definition Disconnect :: "'j Client \<Rightarrow> error option \<times> 'j Client" where
  "Disconnect c =
     (if \<not> connected c then (None, c)
      else (case Transport_Close (transport c) of
              (err, t) \<Rightarrow>
                (map_option ErrExternal err,
                 c\<lparr>transport := t, connected := False, initialized := False,
                   serverInfo := None, serverCapabilities := None\<rparr>)))"

definition IsConnected :: "'j Client \<Rightarrow> bool" where
  "IsConnected c = connected c"

definition IsInitialized :: "'j Client \<Rightarrow> bool" where
  "IsInitialized c = initialized c"

definition GetServerInfo :: "'j Client \<Rightarrow> ServerInfo option" where
  "GetServerInfo c = serverInfo c"

definition GetServerCapabilities :: "'j Client \<Rightarrow> 'j ServerCapabilities option" where
  "GetServerCapabilities c = serverCapabilities c"

definition CheckConnection :: "'j Client \<Rightarrow> error option \<times> 'j Client" where
  "CheckConnection c =
     (case Transport_IsConnected (transport c) of
        (up, t) \<Rightarrow>
          if \<not> up
          then (Some ErrTransportDisconnected,
                c\<lparr>transport := t, connected := False, initialized := False\<rparr>)
          else (None, c\<lparr>transport := t\<rparr>))"

text \<open>
  \<open>parseResult\<close>: \<open>nil\<close> is refused; otherwise the result is marshalled to JSON and
  unmarshalled into the target type. The two codec steps are the parameter \<open>decode\<close>,
  which gives the decoded value or the text of the codec's error.
\<close>

definition parseResult :: "('j \<Rightarrow> string + 'r) \<Rightarrow> 'j option \<Rightarrow> error + 'r" where
  "parseResult decode result =
     (case result of
        None \<Rightarrow> Inl ErrResultNil
      | Some r \<Rightarrow>
          (case decode r of
             Inl err \<Rightarrow> Inl (Wrap ''failed to unmarshal result'' (ErrExternal err))
           | Inr v \<Rightarrow> Inr v))"

text \<open>
  The receive loop of \<open>sendRequest\<close>. Each round first polls the deadline and otherwise
  blocks in \<open>Receive\<close>; a message that does not match goes to \<open>handleMessage\<close>, which
  only logs. The result is \<open>None\<close> when \<open>Receive\<close> never returns.
\<close>

function waitResponse ::
  "(float64 \<Rightarrow> int64) \<Rightarrow> Context \<Rightarrow> int64 \<Rightarrow> 'j Client \<Rightarrow> ((error + 'j Message) \<times> 'j Client) option"
where
  "waitResponse impl responseCtx rid c =
     (if ctx_Done responseCtx (t_clock (transport c)) then Some (Inl ErrRequestTimeout, c)
      else (case Transport_Receive (transport c) of
              None \<Rightarrow> None
            | Some (Inl err, t) \<Rightarrow>
                Some (Inl (Wrap ''failed to receive response'' (ErrExternal err)),
                      c\<lparr>transport := t, connected := False, initialized := False\<rparr>)
            | Some (Inr response, t) \<Rightarrow>
                if isMatchingID impl (ID response) rid then Some (Inr response, c\<lparr>transport := t\<rparr>)
                else waitResponse impl responseCtx rid (c\<lparr>transport := t\<rparr>)))"
  by pat_completeness auto
termination
  by (relation "measure (\<lambda>(impl, responseCtx, rid, c). length (t_recv_script (transport c)))")
     (auto simp: Transport_Receive_def split: list.splits recv_event.splits)

declare waitResponse.simps [simp del]

definition sendRequest ::
  "(float64 \<Rightarrow> int64) \<Rightarrow> Context \<Rightarrow> string \<Rightarrow> 'j request_params \<Rightarrow> 'j Client
     \<Rightarrow> ((error + 'j Message) \<times> 'j Client) option"
where
  "sendRequest impl ctx method params c =
     (let rid = requestID c + 1;
          c1 = c\<lparr>requestID := rid\<rparr>;
          request = NewRequest (IDInt64 rid) method params
      in (case Transport_IsConnected (transport c1) of
            (up, t1) \<Rightarrow>
              if \<not> up then Some (Inl ErrTransportDisconnected, c1\<lparr>transport := t1\<rparr>)
              else (case Transport_Send request t1 of
                      None \<Rightarrow> None
                    | Some (Some err, t2) \<Rightarrow>
                        Some (Inl (Wrap ''failed to send request'' (ErrExternal err)),
                              c1\<lparr>transport := t2, connected := False, initialized := False\<rparr>)
                    | Some (None, t2) \<Rightarrow>
                        waitResponse impl (WithTimeout ctx (t_clock t2) (timeout c1)) rid
                          (c1\<lparr>transport := t2\<rparr>))))"


text \<open>
  \<open>Initialize\<close>. \<open>decode\<close> is the JSON round trip of \<open>parseResult\<close> into an
  \<open>InitializeResponse\<close>. The result is \<open>None\<close> when a transport call never returns.
\<close>

definition Initialize ::
  "(float64 \<Rightarrow> int64) \<Rightarrow> ('j \<Rightarrow> string + 'j InitializeResponse) \<Rightarrow> Context \<Rightarrow> ClientInfo
     \<Rightarrow> 'j Client \<Rightarrow> (error option \<times> 'j Client) option"
where
  "Initialize impl decode ctx clientInfo c =
     (if \<not> IsConnected c then Some (Some ErrNotConnected, c)
      else
        (let request = InitializeRequest mcp_Version (ClientCapabilities [] (Some ())) clientInfo
         in (case sendRequest impl ctx ''initialize'' request c of
               None \<Rightarrow> None
             | Some (Inl err, c1) \<Rightarrow> Some (Some (Wrap ''initialize request failed'' err), c1)
             | Some (Inr response, c1) \<Rightarrow>
                 (case Error response of
                    Some e \<Rightarrow> Some (Some (ErrServer ''initialize error'' (Message e)), c1)
                  | None \<Rightarrow>
                      (case parseResult decode (Result response) of
                         Inl err \<Rightarrow>
                           Some (Some (Wrap ''failed to parse initialize response'' err), c1)
                       | Inr initResponse \<Rightarrow>
                           (let c2 = c1\<lparr>serverInfo := Some (ServerInfo initResponse),
                                        serverCapabilities := Some (Capabilities initResponse),
                                        initialized := True\<rparr>;
                                notification = NewNotification ''notifications/initialized'' None
                            in (case Transport_Send notification (transport c2) of
                                  None \<Rightarrow> None
                                | Some (Some err, t) \<Rightarrow>
                                    Some (Some (Wrap ''failed to send initialized notification''
                                                  (ErrExternal err)),
                                          c2\<lparr>transport := t\<rparr>)
                                | Some (None, t) \<Rightarrow> Some (None, c2\<lparr>transport := t\<rparr>))))))))"

text \<open>
  The six operations on an initialized client. In each, \<open>decode\<close> is the JSON round trip
  of \<open>parseResult\<close> into the operation's response type (for the list operations followed
  by the selection of the list field).
\<close>

definition ListTools ::
  "(float64 \<Rightarrow> int64) \<Rightarrow> ('j \<Rightarrow> string + 'r) \<Rightarrow> Context \<Rightarrow> 'j Client
     \<Rightarrow> ((error + 'r) \<times> 'j Client) option"
where
  "ListTools impl decode ctx c =
     (if \<not> IsInitialized c then Some (Inl ErrClientNotInitialized, c)
      else (case sendRequest impl ctx ''tools/list'' ListToolsRequest c of
              None \<Rightarrow> None
            | Some (Inl err, c1) \<Rightarrow> Some (Inl (Wrap ''list tools request failed'' err), c1)
            | Some (Inr response, c1) \<Rightarrow>
                (case Error response of
                   Some e \<Rightarrow> Some (Inl (ErrServer ''list tools error'' (Message e)), c1)
                 | None \<Rightarrow>
                     (case parseResult decode (Result response) of
                        Inl err \<Rightarrow> Some (Inl (Wrap ''failed to parse list tools response'' err), c1)
                      | Inr r \<Rightarrow> Some (Inr r, c1)))))"

definition CallTool ::
  "(float64 \<Rightarrow> int64) \<Rightarrow> ('j \<Rightarrow> string + 'r) \<Rightarrow> Context \<Rightarrow> string \<Rightarrow> (string \<times> 'j) list \<Rightarrow> 'j Client
     \<Rightarrow> ((error + 'r) \<times> 'j Client) option"
where
  "CallTool impl decode ctx name arguments c =
     (if \<not> IsInitialized c then Some (Inl ErrClientNotInitialized, c)
      else (case CheckConnection c of
              (Some err, c0) \<Rightarrow> Some (Inl (Wrap ''connection check failed'' err), c0)
            | (None, c0) \<Rightarrow>
                (case sendRequest impl ctx ''tools/call'' (CallToolRequest name arguments) c0 of
                  None \<Rightarrow> None
                | Some (Inl err, c1) \<Rightarrow> Some (Inl (Wrap ''call tool request failed'' err), c1)
                | Some (Inr response, c1) \<Rightarrow>
                    (case Error response of
                       Some e \<Rightarrow> Some (Inl (ErrServer ''call tool error'' (Message e)), c1)
                     | None \<Rightarrow>
                         (case parseResult decode (Result response) of
                            Inl err \<Rightarrow> Some (Inl (Wrap ''failed to parse call tool response'' err), c1)
                          | Inr r \<Rightarrow> Some (Inr r, c1))))))"

definition ListResources ::
  "(float64 \<Rightarrow> int64) \<Rightarrow> ('j \<Rightarrow> string + 'r) \<Rightarrow> Context \<Rightarrow> 'j Client
     \<Rightarrow> ((error + 'r) \<times> 'j Client) option"
where
  "ListResources impl decode ctx c =
     (if \<not> IsInitialized c then Some (Inl ErrClientNotInitialized, c)
      else (case sendRequest impl ctx ''resources/list'' ListResourcesRequest c of
              None \<Rightarrow> None
            | Some (Inl err, c1) \<Rightarrow> Some (Inl (Wrap ''list resources request failed'' err), c1)
            | Some (Inr response, c1) \<Rightarrow>
                (case Error response of
                   Some e \<Rightarrow> Some (Inl (ErrServer ''list resources error'' (Message e)), c1)
                 | None \<Rightarrow>
                     (case parseResult decode (Result response) of
                        Inl err \<Rightarrow> Some (Inl (Wrap ''failed to parse list resources response'' err), c1)
                      | Inr r \<Rightarrow> Some (Inr r, c1)))))"

definition ListPrompts ::
  "(float64 \<Rightarrow> int64) \<Rightarrow> ('j \<Rightarrow> string + 'r) \<Rightarrow> Context \<Rightarrow> 'j Client
     \<Rightarrow> ((error + 'r) \<times> 'j Client) option"
where
  "ListPrompts impl decode ctx c =
     (if \<not> IsInitialized c then Some (Inl ErrClientNotInitialized, c)
      else (case sendRequest impl ctx ''prompts/list'' ListPromptsRequest c of
              None \<Rightarrow> None
            | Some (Inl err, c1) \<Rightarrow> Some (Inl (Wrap ''list prompts request failed'' err), c1)
            | Some (Inr response, c1) \<Rightarrow>
                (case Error response of
                   Some e \<Rightarrow> Some (Inl (ErrServer ''list prompts error'' (Message e)), c1)
                 | None \<Rightarrow>
                     (case parseResult decode (Result response) of
                        Inl err \<Rightarrow> Some (Inl (Wrap ''failed to parse list prompts response'' err), c1)
                      | Inr r \<Rightarrow> Some (Inr r, c1)))))"

definition GetPrompt ::
  "(float64 \<Rightarrow> int64) \<Rightarrow> ('j \<Rightarrow> string + 'r) \<Rightarrow> Context \<Rightarrow> string \<Rightarrow> (string \<times> 'j) list \<Rightarrow> 'j Client
     \<Rightarrow> ((error + 'r) \<times> 'j Client) option"
where
  "GetPrompt impl decode ctx name arguments c =
     (if \<not> IsInitialized c then Some (Inl ErrClientNotInitialized, c)
      else (case sendRequest impl ctx ''prompts/get'' (GetPromptRequest name arguments) c of
              None \<Rightarrow> None
            | Some (Inl err, c1) \<Rightarrow> Some (Inl (Wrap ''get prompt request failed'' err), c1)
            | Some (Inr response, c1) \<Rightarrow>
                (case Error response of
                   Some e \<Rightarrow> Some (Inl (ErrServer ''get prompt error'' (Message e)), c1)
                 | None \<Rightarrow>
                     (case parseResult decode (Result response) of
                        Inl err \<Rightarrow> Some (Inl (Wrap ''failed to parse get prompt response'' err), c1)
                      | Inr r \<Rightarrow> Some (Inr r, c1)))))"

definition ReadResource ::
  "(float64 \<Rightarrow> int64) \<Rightarrow> ('j \<Rightarrow> string + 'r) \<Rightarrow> Context \<Rightarrow> string \<Rightarrow> 'j Client
     \<Rightarrow> ((error + 'r) \<times> 'j Client) option"
where
  "ReadResource impl decode ctx uri c =
     (if \<not> IsInitialized c then Some (Inl ErrClientNotInitialized, c)
      else (case sendRequest impl ctx ''resources/read'' (ReadResourceRequest uri) c of
              None \<Rightarrow> None
            | Some (Inl err, c1) \<Rightarrow> Some (Inl (Wrap ''read resource request failed'' err), c1)
            | Some (Inr response, c1) \<Rightarrow>
                (case Error response of
                   Some e \<Rightarrow> Some (Inl (ErrServer ''read resource error'' (Message e)), c1)
                 | None \<Rightarrow>
                     (case parseResult decode (Result response) of
                        Inl err \<Rightarrow> Some (Inl (Wrap ''failed to parse read resource response'' err), c1)
                      | Inr r \<Rightarrow> Some (Inr r, c1)))))"


section \<open>Concrete transports (pkg/transport)\<close>

text \<open>
  Handles of the operating system carry the outcome of the calls the transports make on
  them: \<open>None\<close> is success, \<open>Some\<close> the text of the error.
\<close>

record Conn =
  conn_close_result :: "string option"

record Pipe =
  pipe_close_result :: "string option"

record Process =
  kill_result :: "string option"
  wait_result :: "string option"

record Cmd =
  cmd_Process :: "Process option"

subsection \<open>TCP\<close>

record TCPTransport =
  tcp_host :: string
  tcp_port :: int
  tcp_conn :: "Conn option"
  tcp_reader :: "Conn option"
  tcp_writer :: "Conn option"
  tcp_connected :: bool
  tcp_timeout :: nat

definition NewTCPTransport :: "string \<Rightarrow> int \<Rightarrow> TCPTransport" where
  "NewTCPTransport host port =
     \<lparr>tcp_host = host, tcp_port = port, tcp_conn = None, tcp_reader = None, tcp_writer = None,
      tcp_connected = False, tcp_timeout = 30\<rparr>"

text \<open>\<open>Close\<close> returns at once when \<open>!t.connected || t.conn == nil\<close>.\<close>

definition TCPTransport_Close :: "TCPTransport \<Rightarrow> error option \<times> TCPTransport" where
  "TCPTransport_Close t =
     (case tcp_conn t of
        None \<Rightarrow> (None, t)
      | Some conn \<Rightarrow>
          if \<not> tcp_connected t then (None, t)
          else (map_option ErrExternal (conn_close_result conn),
                t\<lparr>tcp_connected := False, tcp_conn := None, tcp_reader := None,
                  tcp_writer := None\<rparr>))"

subsection \<open>STDIO (pkg/transport/stdio.go)\<close>

record StdioTransport =
  stdio_command :: string
  stdio_args :: "string list"
  stdio_cmd :: "Cmd option"
  stdio_stdin :: "Pipe option"
  stdio_stdout :: "Pipe option"
  stdio_stderr :: "Pipe option"
  stdio_reader :: "Pipe option"
  stdio_writer :: "Pipe option"
  stdio_connected :: bool

definition NewStdioTransport :: "string \<Rightarrow> string list \<Rightarrow> StdioTransport" where
  "NewStdioTransport command args =
     \<lparr>stdio_command = command, stdio_args = args, stdio_cmd = None, stdio_stdin = None,
      stdio_stdout = None, stdio_stderr = None, stdio_reader = None, stdio_writer = None,
      stdio_connected = False\<rparr>"

text \<open>What the operating system answers while \<open>Connect\<close> spawns the child process.\<close>

record Spawn =
  stdin_pipe_result :: "string + Pipe"
  stdout_pipe_result :: "string + Pipe"
  stderr_pipe_result :: "string + Pipe"
  start_result :: "string + Process"

definition StdioTransport_Connect :: "Spawn \<Rightarrow> StdioTransport \<Rightarrow> error option \<times> StdioTransport" where
  "StdioTransport_Connect os s =
     (if stdio_connected s then (None, s)
      else
        (let s0 = s\<lparr>stdio_cmd := Some \<lparr>cmd_Process = None\<rparr>\<rparr>
         in (case stdin_pipe_result os of
               Inl err \<Rightarrow> (Some (Wrap ''failed to create stdin pipe'' (ErrExternal err)), s0)
             | Inr stdin \<Rightarrow>
                 (let s1 = s0\<lparr>stdio_stdin := Some stdin\<rparr>
                  in (case stdout_pipe_result os of
                        Inl err \<Rightarrow> (Some (Wrap ''failed to create stdout pipe'' (ErrExternal err)), s1)
                      | Inr stdout \<Rightarrow>
                          (let s2 = s1\<lparr>stdio_stdout := Some stdout\<rparr>
                           in (case stderr_pipe_result os of
                                 Inl err \<Rightarrow>
                                   (Some (Wrap ''failed to create stderr pipe'' (ErrExternal err)), s2)
                               | Inr stderr \<Rightarrow>
                                   (let s3 = s2\<lparr>stdio_stderr := Some stderr\<rparr>
                                    in (case start_result os of
                                          Inl err \<Rightarrow>
                                            (Some (Wrap ''failed to start command'' (ErrExternal err)), s3)
                                        | Inr proc \<Rightarrow>
                                            (None,
                                             s3\<lparr>stdio_cmd := Some \<lparr>cmd_Process = Some proc\<rparr>,
                                                stdio_reader := Some stdout,
                                                stdio_writer := Some stdin,
                                                stdio_connected := True\<rparr>))))))))))"

text \<open>The calls \<open>Close\<close> makes on the operating system, in the order it makes them.\<close>

datatype os_call = CloseStdin | CloseStdout | CloseStderr | KillProcess | WaitProcess

text \<open>\<open>errs = append(errs, err)\<close> under \<open>if err != nil\<close>.\<close>

definition append_err :: "string list \<Rightarrow> string option \<Rightarrow> string list" where
  "append_err errs r = (case r of None \<Rightarrow> errs | Some err \<Rightarrow> errs @ [err])"

definition StdioTransport_Close :: "StdioTransport \<Rightarrow> error option \<times> os_call list \<times> StdioTransport" where
  "StdioTransport_Close s =
     (if \<not> stdio_connected s then (None, [], s)
      else
        (let (errs1, calls1) =
               (case stdio_stdin s of
                  None \<Rightarrow> ([], [])
                | Some p \<Rightarrow> (append_err [] (pipe_close_result p), [CloseStdin]));
             (errs2, calls2) =
               (case stdio_stdout s of
                  None \<Rightarrow> (errs1, calls1)
                | Some p \<Rightarrow> (append_err errs1 (pipe_close_result p), calls1 @ [CloseStdout]));
             (errs3, calls3) =
               (case stdio_stderr s of
                  None \<Rightarrow> (errs2, calls2)
                | Some p \<Rightarrow> (append_err errs2 (pipe_close_result p), calls2 @ [CloseStderr]));
             (errs4, calls4) =
               (case stdio_cmd s of
                  None \<Rightarrow> (errs3, calls3)
                | Some cmd \<Rightarrow>
                    (case cmd_Process cmd of
                       None \<Rightarrow> (errs3, calls3)
                     | Some proc \<Rightarrow>
                         (append_err errs3 (kill_result proc),
                          calls3 @ [KillProcess, WaitProcess])));
             s' = s\<lparr>stdio_connected := False, stdio_cmd := None, stdio_stdin := None,
                    stdio_stdout := None, stdio_stderr := None, stdio_reader := None,
                    stdio_writer := None\<rparr>
         in (if length errs4 > 0 then Some (ErrDuringClose errs4) else None, calls4, s')))"

subsection \<open>WebSocket (pkg/transport/websocket.go)\<close>

record WSConn =
  ws_write_result :: "string option"
  ws_close_result :: "string option"

text \<open>
  The four channels: the buffered ones by their content, \<open>stopChan\<close> by whether it has
  been closed.
\<close>

record WebSocketTransport =
  ws_url :: string
  ws_conn :: "WSConn option"
  ws_connected :: bool
  ws_timeout :: nat
  ws_readChan :: "string list"
  ws_writeChan :: "string list"
  ws_stopChan_closed :: bool
  ws_errorChan :: "string list"

definition NewWebSocketTransport :: "string \<Rightarrow> WebSocketTransport" where
  "NewWebSocketTransport wsURL =
     \<lparr>ws_url = wsURL, ws_conn = None, ws_connected = False, ws_timeout = 30, ws_readChan = [],
      ws_writeChan = [], ws_stopChan_closed = False, ws_errorChan = []\<rparr>"

text \<open>
  \<open>Close\<close> returns at once when \<open>!w.connected || w.conn == nil\<close>. \<open>Inl\<close> is a panic
  (closing \<open>stopChan\<close> a second time). The result of writing the close frame is not
  looked at.
\<close>

definition WebSocketTransport_Close ::
  "WebSocketTransport \<Rightarrow> string + (error option \<times> WebSocketTransport)"
where
  "WebSocketTransport_Close w =
     (case ws_conn w of
        None \<Rightarrow> Inr (None, w)
      | Some conn \<Rightarrow>
          if \<not> ws_connected w then Inr (None, w)
          else if ws_stopChan_closed w then Inl ''close of closed channel''
          else Inr (map_option ErrExternal (ws_close_result conn),
                    w\<lparr>ws_stopChan_closed := True, ws_connected := False, ws_conn := None\<rparr>))"

text \<open>A value of the interface \<open>transport.Transport\<close>, by its dynamic type.\<close>

datatype transport_impl =
    TCP TCPTransport
  | Stdio StdioTransport
  | WebSocket WebSocketTransport


section \<open>Discovery engine (pkg/discovery/discovery.go)\<close>

record discovery_ServerInfo =
  srv_Name :: string
  srv_Type :: string
  srv_Address :: string
  srv_Port :: int
  srv_Transport :: transport_impl
  srv_Description :: string

record DockerContainer =
  dc_ID :: string
  dc_Name :: string
  dc_Image :: string
  dc_Ports :: "string list"

text \<open>
  What a discovery pass finds outside the program: whether a dial to \<open>host:port\<close>
  succeeds within the timeout, whether \<open>docker version\<close> runs, and the containers that
  \<open>getDockerContainers\<close> reads from \<open>docker ps\<close>.
\<close>

record Host =
  dial_ok :: "string \<Rightarrow> int \<Rightarrow> bool"
  docker_version_ok :: bool
  docker_ps :: "DockerContainer list"

definition isPortOpen :: "Host \<Rightarrow> string \<Rightarrow> int \<Rightarrow> bool" where
  "isPortOpen env host port = dial_ok env host port"

definition isDockerAvailable :: "Host \<Rightarrow> bool" where
  "isDockerAvailable env = docker_version_ok env"

definition getDockerContainers :: "Host \<Rightarrow> DockerContainer list" where
  "getDockerContainers env = docker_ps env"

text \<open>\<open>strings.Contains\<close>: the second string occurs in the first.\<close>

fun Contains :: "string \<Rightarrow> string \<Rightarrow> bool" where
  "Contains [] substr = (substr = [])"
| "Contains (c # cs) substr = (take (length substr) (c # cs) = substr \<or> Contains cs substr)"

text \<open>\<open>isMCPContainer\<close>; \<open>ToLower\<close> is \<open>strings.ToLower\<close>, a parameter.\<close>

definition isMCPContainer :: "(string \<Rightarrow> string) \<Rightarrow> DockerContainer \<Rightarrow> bool" where
  "isMCPContainer ToLower container =
     (let mcpKeywords = [''mcp'', ''model-context-protocol'', ''context''];
          name = ToLower (dc_Name container);
          image = ToLower (dc_Image container)
      in if list_ex (\<lambda>keyword. Contains name keyword \<or> Contains image keyword) mcpKeywords
         then True
         else if list_ex (\<lambda>portStr. Contains portStr ''8811'' \<or> Contains portStr ''3000'')
                   (dc_Ports container)
         then True
         else False)"

definition createDockerTransport :: "DockerContainer \<Rightarrow> transport_impl" where
  "createDockerTransport container =
     Stdio (NewStdioTransport ''docker'' [''exec'', ''-i'', dc_ID container, ''sh''])"

fun DiscoverTCPServers :: "Host \<Rightarrow> string \<Rightarrow> int list \<Rightarrow> discovery_ServerInfo list" where
  "DiscoverTCPServers env host [] = []"
| "DiscoverTCPServers env host (port # ports) =
     (if isPortOpen env host port
      then \<lparr>srv_Name = ''TCP Server '' @ host @ '':'' @ itoa port,
            srv_Type = ''tcp'',
            srv_Address = host,
            srv_Port = port,
            srv_Transport = TCP (NewTCPTransport host port),
            srv_Description = ''MCP server on TCP '' @ host @ '':'' @ itoa port\<rparr>
           # DiscoverTCPServers env host ports
      else DiscoverTCPServers env host ports)"

fun docker_servers :: "(string \<Rightarrow> string) \<Rightarrow> DockerContainer list \<Rightarrow> discovery_ServerInfo list" where
  "docker_servers ToLower [] = []"
| "docker_servers ToLower (container # containers) =
     (if isMCPContainer ToLower container
      then \<lparr>srv_Name = ''Docker Container '' @ dc_Name container,
            srv_Type = ''docker'',
            srv_Address = dc_ID container,
            srv_Port = 0,
            srv_Transport = createDockerTransport container,
            srv_Description = ''MCP server in Docker container '' @ dc_Name container\<rparr>
           # docker_servers ToLower containers
      else docker_servers ToLower containers)"

text \<open>\<open>DiscoverDockerServers\<close>; \<open>docker_servers\<close> is its loop over the containers.\<close>

definition DiscoverDockerServers :: "Host \<Rightarrow> (string \<Rightarrow> string) \<Rightarrow> discovery_ServerInfo list" where
  "DiscoverDockerServers env ToLower =
     (if \<not> isDockerAvailable env then []
      else docker_servers ToLower (getDockerContainers env))"

definition CreateDockerMCPTransport :: transport_impl where
  "CreateDockerMCPTransport = TCP (NewTCPTransport ''localhost'' 8811)"

definition commonPorts :: "int list" where
  "commonPorts = [8811, 8080, 3000, 4000, 5000, 8000, 8888, 9000]"

definition DiscoverCommonPorts :: "Host \<Rightarrow> string \<Rightarrow> discovery_ServerInfo list" where
  "DiscoverCommonPorts env host = DiscoverTCPServers env host commonPorts"

definition dockerMCP :: discovery_ServerInfo where
  "dockerMCP =
     \<lparr>srv_Name = ''Docker MCP (Direct TCP)'',
      srv_Type = ''docker'',
      srv_Address = ''localhost'',
      srv_Port = 8811,
      srv_Transport = CreateDockerMCPTransport,
      srv_Description =
        ''Standard Docker MCP server using direct TCP connection to localhost:8811''\<rparr>"

definition DiscoverAll :: "Host \<Rightarrow> (string \<Rightarrow> string) \<Rightarrow> string \<Rightarrow> discovery_ServerInfo list" where
  "DiscoverAll env ToLower host =
     (let allServers = [];
          tcpServers = DiscoverCommonPorts env host;
          allServers = allServers @ tcpServers;
          dockerServers = DiscoverDockerServers env ToLower;
          allServers = allServers @ dockerServers;
          allServers = allServers @ [dockerMCP]
      in allServers)"

section \<open>Notions used to state the properties\<close>

text \<open>
  An error that \<open>sendRequest\<close> returns because the transport's \<open>Send\<close> or \<open>Receive\<close>
  failed, possibly wrapped by the operation that called it.
\<close>

fun transport_failure :: "error \<Rightarrow> bool" where
  "transport_failure (Wrap p e) =
     (if p = ''failed to send request'' \<or> p = ''failed to receive response'' then True
      else transport_failure e)"
| "transport_failure ErrNotConnected = False"
| "transport_failure ErrClientNotInitialized = False"
| "transport_failure ErrTransportDisconnected = False"
| "transport_failure ErrRequestTimeout = False"
| "transport_failure ErrResultNil = False"
| "transport_failure (ErrExternal m) = False"
| "transport_failure (ErrServer p m) = False"
| "transport_failure (ErrDuringClose errs) = False"

text \<open>
  The timeout of the receive loop, possibly wrapped by the operation that called it, and
  not the cause of a failed \<open>Send\<close> or \<open>Receive\<close>.
\<close>

fun timeout_failure :: "error \<Rightarrow> bool" where
  "timeout_failure ErrRequestTimeout = True"
| "timeout_failure (Wrap p e) =
     (if p = ''failed to send request'' \<or> p = ''failed to receive response'' then False
      else timeout_failure e)"
| "timeout_failure ErrNotConnected = False"
| "timeout_failure ErrClientNotInitialized = False"
| "timeout_failure ErrTransportDisconnected = False"
| "timeout_failure ErrResultNil = False"
| "timeout_failure (ErrExternal m) = False"
| "timeout_failure (ErrServer p m) = False"
| "timeout_failure (ErrDuringClose errs) = False"

text \<open>
  A sequence of requests issued one after the other through the same client, with the
  identifier that \<open>sendRequest\<close> assigned to each (the counter after the call);
  \<open>None\<close> when one of the calls never returns.
\<close>

fun issue_requests ::
  "(float64 \<Rightarrow> int64) \<Rightarrow> (Context \<times> string \<times> 'j request_params) list \<Rightarrow> 'j Client
     \<Rightarrow> (int64 list \<times> 'j Client) option"
where
  "issue_requests impl [] c = Some ([], c)"
| "issue_requests impl ((ctx, method, params) # rs) c =
     (case sendRequest impl ctx method params c of
        None \<Rightarrow> None
      | Some (r, c1) \<Rightarrow>
          (case issue_requests impl rs c1 of
             None \<Rightarrow> None
           | Some (ids, c2) \<Rightarrow> Some (requestID c1 # ids, c2)))"


text \<open>
  What a returning \<open>sendRequest\<close> (or its receive loop) leaves behind, by its result: the
  server's identity and capabilities, the counter and the timeout are untouched; the two
  flags are cleared after a failed \<open>Send\<close> or \<open>Receive\<close> and untouched otherwise.
\<close>

fun request_outcome ::
  "(float64 \<Rightarrow> int64) \<Rightarrow> int64 \<Rightarrow> 'j Client \<Rightarrow> (error + 'j Message) \<Rightarrow> 'j Client \<Rightarrow> bool"
where
  "request_outcome impl rid c (Inl e) c' =
     (serverInfo c' = serverInfo c \<and> serverCapabilities c' = serverCapabilities c \<and>
      requestID c' = requestID c \<and> timeout c' = timeout c \<and>
      (if transport_failure e then \<not> connected c' \<and> \<not> initialized c' \<and> \<not> timeout_failure e
       else connected c' = connected c \<and> initialized c' = initialized c \<and>
            (e = ErrTransportDisconnected \<or> e = ErrRequestTimeout)))"
| "request_outcome impl rid c (Inr response) c' =
     (serverInfo c' = serverInfo c \<and> serverCapabilities c' = serverCapabilities c \<and>
      requestID c' = requestID c \<and> timeout c' = timeout c \<and>
      connected c' = connected c \<and> initialized c' = initialized c \<and>
      isMatchingID impl (ID response) rid)"

text \<open>What an operation that returns an error leaves behind.\<close>

definition failure_effect :: "'j Client \<Rightarrow> error \<Rightarrow> 'j Client \<Rightarrow> bool" where
  "failure_effect c e c' =
     (serverInfo c' = serverInfo c \<and> serverCapabilities c' = serverCapabilities c \<and>
      (if transport_failure e then \<not> connected c' \<and> \<not> initialized c'
       else if timeout_failure e then connected c' = connected c \<and> initialized c' = initialized c
       else True))"

text \<open>
  The state after a failed \<open>Send\<close> or \<open>Receive\<close>: both flags are down, and the server's
  identity and capabilities are as they were.
\<close>

definition marked_disconnected :: "'j Client \<Rightarrow> 'j Client \<Rightarrow> bool" where
  "marked_disconnected c c' =
     (\<not> connected c' \<and> \<not> initialized c' \<and>
      serverInfo c' = serverInfo c \<and> serverCapabilities c' = serverCapabilities c)"

subsection \<open>Example states\<close>

definition demo_server :: ServerInfo where
  "demo_server = \<lparr>Name = ''demo'', Version = ''1.0.0''\<rparr>"

definition demo_capabilities :: "unit ServerCapabilities" where
  "demo_capabilities =
     \<lparr>Experimental = [], Logging = None, Prompts = None, Resources = None, Tools = Some False\<rparr>"

definition scripted :: "string option list \<Rightarrow> unit recv_event list \<Rightarrow> unit Transport" where
  "scripted sends recvs =
     \<lparr>t_connected = True, t_connect_result = None, t_close_result = None,
      t_send_script = sends, t_recv_script = recvs, t_calls = [], t_clock = 0\<rparr>"

definition ready_client :: "unit Transport \<Rightarrow> unit Client" where
  "ready_client t =
     \<lparr>transport = t, serverInfo = Some demo_server, serverCapabilities = Some demo_capabilities,
      connected = True, initialized = True, requestID = 0, timeout = 30\<rparr>"

definition background :: Context where
  "background = \<lparr>deadline = None\<rparr>"



text \<open>A transport that has not been connected, and the configuration of the builder.\<close>

definition idle_transport :: "unit Transport" where
  "idle_transport =
     \<lparr>t_connected = False, t_connect_result = None, t_close_result = None,
      t_send_script = [], t_recv_script = [], t_calls = [], t_clock = 0\<rparr>"

definition default_config :: ClientConfig where
  "default_config = \<lparr>cfg_Name = ''mcp-client'', cfg_Version = ''1.0.0'', cfg_Timeout = 30\<rparr>"

text \<open>
  Two hosts: one with no open port and no Docker, and one where port 8811 is open and
  Docker runs a container that is no protocol candidate.
\<close>

definition bridge_only_host :: Host where
  "bridge_only_host = \<lparr>dial_ok = (\<lambda>host port. False), docker_version_ok = False, docker_ps = []\<rparr>"

definition bridge_port_host :: Host where
  "bridge_port_host =
     \<lparr>dial_ok = (\<lambda>host port. port = 8811), docker_version_ok = True,
      docker_ps = [\<lparr>dc_ID = ''4f2a'', dc_Name = ''redis'', dc_Image = ''redis:7'',
                    dc_Ports = [''6379/tcp'']\<rparr>]\<rparr>"

text \<open>The transport after \<open>Close\<close>: disconnected, every handle dropped.\<close>

definition stdio_released :: "StdioTransport \<Rightarrow> StdioTransport" where
  "stdio_released s =
     s\<lparr>stdio_connected := False, stdio_cmd := None, stdio_stdin := None, stdio_stdout := None,
       stdio_stderr := None, stdio_reader := None, stdio_writer := None\<rparr>"

text \<open>The errors among the results of a sequence of calls, in the order of the calls.\<close>

fun failures :: "string option list \<Rightarrow> string list" where
  "failures [] = []"
| "failures (None # rs) = failures rs"
| "failures (Some err # rs) = err # failures rs"

text \<open>
  A spawn in which every step of \<open>Connect\<close> succeeds, by the results that closing the three
  pipes, killing the process and waiting for it will have; and the transport connected
  by it.
\<close>

definition spawn_child :: "string option \<Rightarrow> string option \<Rightarrow> string option \<Rightarrow> string option
    \<Rightarrow> string option \<Rightarrow> Spawn" where
  "spawn_child r_in r_out r_err r_kill r_wait =
     \<lparr>stdin_pipe_result = Inr \<lparr>pipe_close_result = r_in\<rparr>,
      stdout_pipe_result = Inr \<lparr>pipe_close_result = r_out\<rparr>,
      stderr_pipe_result = Inr \<lparr>pipe_close_result = r_err\<rparr>,
      start_result = Inr \<lparr>kill_result = r_kill, wait_result = r_wait\<rparr>\<rparr>"

definition connected_stdio :: "Spawn \<Rightarrow> StdioTransport" where
  "connected_stdio os = snd (StdioTransport_Connect os (NewStdioTransport ''mcp-server'' []))"

text \<open>
  A connected client before the handshake, the response of a server to the first request
  (its identifier decoded from JSON, so a float), and a codec that decodes its result.
\<close>

definition connected_client :: "unit Transport \<Rightarrow> unit Client" where
  "connected_client t =
     \<lparr>transport = t, serverInfo = None, serverCapabilities = None, connected = True,
      initialized = False, requestID = 0, timeout = 30\<rparr>"

definition demo_response :: "unit Message" where
  "demo_response =
     \<lparr>JSONRPC = ''2.0'', ID = Some (IDFloat64 (Finite 1 0)), Method = [], Params = None,
      Result = Some (), Error = None\<rparr>"

definition demo_decode :: "unit \<Rightarrow> string + unit InitializeResponse" where
  "demo_decode j =
     Inr \<lparr>ProtocolVersion = mcp_Version, Capabilities = demo_capabilities, ServerInfo = demo_server\<rparr>"

text \<open>The notification that ends the handshake.\<close>

definition initialized_notification :: "'j Message" where
  "initialized_notification = NewNotification ''notifications/initialized'' None"

text \<open>The error of \<open>Initialize\<close> for a failed \<open>Send\<close> of the notification.\<close>

fun notification_failure :: "error \<Rightarrow> bool" where
  "notification_failure (Wrap p e) = (p = ''failed to send initialized notification'')"
| "notification_failure ErrNotConnected = False"
| "notification_failure ErrClientNotInitialized = False"
| "notification_failure ErrTransportDisconnected = False"
| "notification_failure ErrRequestTimeout = False"
| "notification_failure ErrResultNil = False"
| "notification_failure (ErrExternal m) = False"
| "notification_failure (ErrServer p m) = False"
| "notification_failure (ErrDuringClose errs) = False"

text \<open>
  Two requests with their responses, and a client whose counter has reached the largest
  \<open>int64\<close>.
\<close>

definition two_responses :: "unit recv_event list" where
  "two_responses =
     [RecvMessage 0 (demo_response\<lparr>ID := Some (IDFloat64 (Finite 1 0))\<rparr>),
      RecvMessage 0 (demo_response\<lparr>ID := Some (IDString ''2'')\<rparr>)]"

definition two_requests :: "(Context \<times> string \<times> unit request_params) list" where
  "two_requests =
     [(background, ''tools/list'', ListToolsRequest),
      (background, ''resources/list'', ListResourcesRequest)]"

definition exhausted_client :: "unit Client" where
  "exhausted_client = (NewClient idle_transport default_config)\<lparr>requestID := 0x7FFFFFFFFFFFFFFF\<rparr>"

section \<open>Decimal round trip\<close>

lemma lt10_cases: "d < (10::nat) \<Longrightarrow> d = 0 \<or> d = 1 \<or> d = 2 \<or> d = 3 \<or> d = 4 \<or> d = 5 \<or> d = 6 \<or> d = 7 \<or> d = 8 \<or> d = 9"
  by arith

lemma digit_val_digit_char: "d < 10 \<Longrightarrow> digit_val (digit_char d) = Some d"
  by (drule lt10_cases) (auto simp: digit_val_def digit_char_def)

lemma digit_char_not_sign: "d < 10 \<Longrightarrow> digit_char d \<noteq> CHR ''+'' \<and> digit_char d \<noteq> CHR ''-''"
  by (drule lt10_cases) (auto simp: digit_char_def)

lemma parse_digits_append:
  "parse_digits acc (xs @ ys) =
     (case parse_digits acc xs of None \<Rightarrow> None | Some a \<Rightarrow> parse_digits a ys)"
  by (induction xs arbitrary: acc) (auto split: option.splits)

lemma parse_digits_utoa: "parse_digits 0 (utoa n) = Some n"
proof (induction n rule: utoa.induct)
  case (1 n)
  show ?case
  proof (cases "n < 10")
    case True
    then show ?thesis by (simp add: utoa.simps [of n] digit_val_digit_char)
  next
    case False
    then have "parse_digits 0 (utoa (n div 10)) = Some (n div 10)" using 1 by simp
    moreover have "n mod 10 < 10" by simp
    ultimately show ?thesis using False
      by (simp add: utoa.simps [of n] parse_digits_append digit_val_digit_char)
  qed
qed

lemma utoa_hd: "\<exists>d cs. d < 10 \<and> utoa n = digit_char d # cs"
proof (induction n rule: utoa.induct)
  case (1 n)
  show ?case
  proof (cases "n < 10")
    case True
    then show ?thesis by (auto simp: utoa.simps [of n])
  next
    case False
    then obtain d cs where "d < 10" "utoa (n div 10) = digit_char d # cs" using 1 by blast
    then show ?thesis using False by (auto simp: utoa.simps [of n])
  qed
qed

lemma ParseInt_utoa: "n < 2 ^ 63 \<Longrightarrow> ParseInt (utoa n) = Some (word_of_nat n)"
proof -
  assume n: "n < 2 ^ 63"
  obtain d cs where d: "d < 10" "utoa n = digit_char d # cs" using utoa_hd by blast
  have p: "parse_digits 0 (digit_char d # cs) = Some n" using parse_digits_utoa [of n] d by simp
  show ?thesis using d n digit_char_not_sign [OF d(1)] p
    by (simp add: ParseInt_def del: parse_digits.simps)
qed

lemma ParseInt_neg_utoa: "n \<le> 2 ^ 63 \<Longrightarrow> 0 < n \<Longrightarrow> ParseInt (CHR ''-'' # utoa n) = Some (- word_of_nat n)"
proof -
  assume n: "n \<le> 2 ^ 63" "0 < n"
  obtain d cs where d: "d < 10" "utoa n = digit_char d # cs" using utoa_hd by blast
  have p: "parse_digits 0 (digit_char d # cs) = Some n" using parse_digits_utoa [of n] d by simp
  show ?thesis using d n p
    by (simp add: ParseInt_def del: parse_digits.simps)
qed

lemma ParseInt_itoa: "ParseInt (itoa (sint (n :: int64))) = Some n"
proof (cases "sint n < 0")
  case True
  have lo: "- (2 ^ 63) \<le> sint n" using sint_ge [of n] by simp
  have "ParseInt (CHR ''-'' # utoa (nat (- sint n))) = Some (- word_of_nat (nat (- sint n)))"
    using True lo by (intro ParseInt_neg_utoa) auto
  moreover have "- word_of_nat (nat (- sint n)) = n"
  proof -
    have "(word_of_nat (nat (- sint n)) :: int64) = word_of_int (- sint n)"
      using True by (simp add: of_nat_nat)
    then show ?thesis by simp
  qed
  ultimately show ?thesis using True by (simp add: itoa_def)
next
  case False
  have hi: "sint n < 2 ^ 63" using sint_lt [of n] by simp
  have "ParseInt (utoa (nat (sint n))) = Some (word_of_nat (nat (sint n)))"
    using False hi by (intro ParseInt_utoa) auto
  moreover have "word_of_nat (nat (sint n)) = n"
  proof -
    have "(word_of_nat (nat (sint n)) :: int64) = word_of_int (sint n)"
      using False by (simp add: of_nat_nat)
    then show ?thesis by simp
  qed
  ultimately show ?thesis using False by (simp add: itoa_def)
qed


section \<open>Conversions to \<open>int64\<close>\<close>

lemma sint_word_of_int_64:
  "- (2 ^ 63) \<le> t \<Longrightarrow> t < 2 ^ 63 \<Longrightarrow> sint (word_of_int t :: int64) = t"
  by (simp add: signed_of_int signed_take_bit_int_eq_self)

lemma word_of_int_eq_iff_64:
  assumes "- (2 ^ 63) \<le> t" and "t < 2 ^ 63"
  shows "(word_of_int t = (n :: int64)) \<longleftrightarrow> t = sint n"
proof
  assume "word_of_int t = n"
  then show "t = sint n" using sint_word_of_int_64 [OF assms] by auto
next
  assume "t = sint n"
  then show "word_of_int t = n" by simp
qed

lemma f64_trunc_half: "0 \<le> v \<Longrightarrow> f64_trunc (2 * v + 1) (- 1) = v"
  by (simp add: f64_trunc_def)


section \<open>Correlation of responses\<close>

text \<open>
  C10. The correlation check truncates a float identifier: a response whose identifier is
  a float with an integer part in the range of \<open>int64\<close> is accepted exactly when that
  integer part, taken towards zero, is the request's identifier; so \<open>n + 0.5\<close>, the
  float \<open>(2 * n + 1) * 2 ^ - 1\<close>, is matched to the request \<open>n \<ge> 0\<close>. A response without
  an identifier (\<open>nil\<close>) is never matched.
\<close>

theorem isMatchingID_float_truncates:
  "(\<not> isMatchingID impl None n) \<and>
   (- (2 ^ 63) \<le> f64_trunc m e \<and> f64_trunc m e < 2 ^ 63 \<longrightarrow>
      (isMatchingID impl (Some (IDFloat64 (Finite m e))) n \<longleftrightarrow> f64_trunc m e = sint n)) \<and>
   (0 \<le> sint n \<longrightarrow> isMatchingID impl (Some (IDFloat64 (Finite (2 * sint n + 1) (- 1)))) n)"
proof (intro conjI impI)
  show "\<not> isMatchingID impl None n" by simp
next
  assume r: "- (2 ^ 63) \<le> f64_trunc m e \<and> f64_trunc m e < 2 ^ 63"
  then show "isMatchingID impl (Some (IDFloat64 (Finite m e))) n \<longleftrightarrow> f64_trunc m e = sint n"
    using word_of_int_eq_iff_64 [of "f64_trunc m e" n] by (simp add: Let_def)
next
  assume nn: "0 \<le> sint n"
  have "sint n < 2 ^ 63" using sint_lt [of n] by simp
  then show "isMatchingID impl (Some (IDFloat64 (Finite (2 * sint n + 1) (- 1)))) n"
    using nn by (simp add: f64_trunc_half Let_def)
qed

theorem isMatchingID_float_truncates_witness:
  "\<not> isMatchingID (\<lambda>f. 0) None 3 \<and>
   isMatchingID (\<lambda>f. 0) (Some (IDFloat64 (Finite 7 (- 1)))) 3 \<and>
   \<not> isMatchingID (\<lambda>f. 0) (Some (IDFloat64 (Finite 9 (- 1)))) 3 \<and>
   f64_trunc 7 (- 1) = 3 \<and> f64_trunc 9 (- 1) = 4 \<and> sint (3 :: int64) = 3"
  using isMatchingID_float_truncates [of "\<lambda>f. 0" 3 7 "- 1"]
        isMatchingID_float_truncates [of "\<lambda>f. 0" 3 9 "- 1"]
  by (simp add: f64_trunc_def)



lemma f64_encodes_trunc: "f64_encodes (Finite m e) v \<Longrightarrow> f64_trunc m e = v"
proof (cases "0 \<le> e")
  case True
  assume "f64_encodes (Finite m e) v"
  then show ?thesis using True by (simp add: f64_trunc_def)
next
  case False
  assume "f64_encodes (Finite m e) v"
  then have m: "m = v * 2 ^ nat (- e)" using False by simp
  have "\<bar>m\<bar> div 2 ^ nat (- e) = \<bar>v\<bar>" by (simp add: m abs_mult)
  moreover have "sgn m = sgn v" by (simp add: m sgn_mult)
  moreover have "sgn v * \<bar>v\<bar> = v" by (simp add: sgn_mult_abs)
  ultimately show ?thesis using False by (simp add: f64_trunc_def)
qed

text \<open>
  C2. For a request with identifier \<open>n\<close>, the correlation check accepts a response whose
  identifier is \<open>n\<close> as an \<open>int64\<close>, as an \<open>int\<close>, as a float with exactly the value
  \<open>n\<close>, or as the decimal string of \<open>n\<close>.
\<close>

theorem isMatchingID_accepts_encodings:
  "isMatchingID impl (Some (IDInt64 n)) n \<and>
   isMatchingID impl (Some (IDInt (sint n))) n \<and>
   (f64_encodes f (sint n) \<longrightarrow> isMatchingID impl (Some (IDFloat64 f)) n) \<and>
   isMatchingID impl (Some (IDString (itoa (sint n)))) n"
proof (intro conjI impI)
  show "isMatchingID impl (Some (IDInt64 n)) n" by simp
  show "isMatchingID impl (Some (IDInt (sint n))) n" by simp
  show "isMatchingID impl (Some (IDString (itoa (sint n)))) n" by (simp add: ParseInt_itoa)
next
  assume enc: "f64_encodes f (sint n)"
  then obtain m e where f: "f = Finite m e" by (cases f) auto
  have t: "f64_trunc m e = sint n" using enc f f64_encodes_trunc by simp
  have "- (2 ^ 63) \<le> sint n" "sint n < 2 ^ 63" using sint_ge [of n] sint_lt [of n] by simp_all
  then show "isMatchingID impl (Some (IDFloat64 f)) n" using f t by (simp add: Let_def)
qed

theorem isMatchingID_accepts_encodings_witness:
  "isMatchingID (\<lambda>f. 0) (Some (IDInt64 42)) 42 \<and>
   isMatchingID (\<lambda>f. 0) (Some (IDInt 42)) 42 \<and>
   f64_encodes (Finite 21 1) 42 \<and> is_float64 (Finite 21 1) \<and>
   isMatchingID (\<lambda>f. 0) (Some (IDFloat64 (Finite 21 1))) 42 \<and>
   isMatchingID (\<lambda>f. 0) (Some (IDString ''42'')) 42"
proof -
  have s: "sint (42 :: int64) = 42" by simp
  have i: "itoa 42 = ''42''" by (simp add: itoa_def utoa.simps digit_char_def)
  have e: "f64_encodes (Finite 21 1) 42" by simp
  show ?thesis
    using isMatchingID_accepts_encodings [of "\<lambda>f. 0" 42 "Finite 21 1"] e
    by (simp only: s i is_float64.simps) simp
qed


section \<open>The request loop and what it leaves behind\<close>

lemmas example_defs =
  demo_server_def demo_capabilities_def scripted_def ready_client_def background_def

lemmas client_defs =
  sendRequest_def Transport_IsConnected_def Transport_Send_def Transport_Receive_def
  NewRequest_def NewNotification_def IsInitialized_def IsConnected_def WithTimeout_def
  ctx_Done_def parseResult_def CheckConnection_def

lemma failure_effect_transport:
  "failure_effect c e c' \<Longrightarrow> transport_failure e \<Longrightarrow> marked_disconnected c c'"
  by (simp add: failure_effect_def marked_disconnected_def)

lemma request_outcome_transport [simp]:
  "request_outcome impl rid (c\<lparr>transport := t\<rparr>) r c' = request_outcome impl rid c r c'"
  by (cases r) simp_all

lemma waitResponse_outcome:
  "waitResponse impl rctx rid c = Some (r, c') \<Longrightarrow> request_outcome impl rid c r c'"
proof (induction impl rctx rid c rule: waitResponse.induct)
  case (1 impl rctx rid c)
  show ?case
  proof (cases "ctx_Done rctx (t_clock (transport c))")
    case True
    then show ?thesis using "1.prems"
      by (auto simp: waitResponse.simps [of impl rctx rid c])
  next
    case False
    note nd = False
    show ?thesis
    proof (cases "Transport_Receive (transport c)")
      case None
      then show ?thesis using "1.prems" nd by (simp add: waitResponse.simps [of impl rctx rid c])
    next
      case (Some a)
      obtain x t where a: "a = (x, t)" by (cases a)
      show ?thesis
      proof (cases x)
        case (Inl err)
        then show ?thesis using "1.prems" nd Some a
          by (auto simp: waitResponse.simps [of impl rctx rid c])
      next
        case (Inr response)
        show ?thesis
        proof (cases "isMatchingID impl (ID response) rid")
          case True
          then show ?thesis using "1.prems" nd Some a Inr
            by (auto simp: waitResponse.simps [of impl rctx rid c])
        next
          case False
          then have "waitResponse impl rctx rid (c\<lparr>transport := t\<rparr>) = Some (r, c')"
            using "1.prems" nd Some a Inr by (simp add: waitResponse.simps [of impl rctx rid c])
          then have "request_outcome impl rid (c\<lparr>transport := t\<rparr>) r c'"
            using "1.IH" [OF nd Some a [symmetric] Inr False] by simp
          then show ?thesis by simp
        qed
      qed
    qed
  qed
qed

lemma sendRequest_outcome:
  assumes "sendRequest impl ctx method params c = Some (r, c')"
  shows "request_outcome impl (requestID c + 1) (c\<lparr>requestID := requestID c + 1\<rparr>) r c'"
proof (cases "t_connected (transport c)")
  case False
  then show ?thesis using assms
    by (auto simp: sendRequest_def Let_def Transport_IsConnected_def)
next
  case True
  let ?c1 = "c\<lparr>requestID := requestID c + 1\<rparr>"
  let ?t1 = "snd (Transport_IsConnected (transport ?c1))"
  let ?req = "NewRequest (IDInt64 (requestID c + 1)) method params"
  show ?thesis
  proof (cases "Transport_Send ?req ?t1")
    case None
    then show ?thesis using assms True
      by (simp add: sendRequest_def Let_def Transport_IsConnected_def)
  next
    case (Some a)
    obtain x t2 where a: "a = (x, t2)" by (cases a)
    show ?thesis
    proof (cases x)
      case (Some err)
      then show ?thesis using assms True \<open>Transport_Send ?req ?t1 = Some a\<close> a
        by (auto simp: sendRequest_def Let_def Transport_IsConnected_def)
    next
      case None
      then have "waitResponse impl (WithTimeout ctx (t_clock t2) (timeout ?c1)) (requestID c + 1)
                   (?c1\<lparr>transport := t2\<rparr>) = Some (r, c')"
        using assms True \<open>Transport_Send ?req ?t1 = Some a\<close> a
        by (simp add: sendRequest_def Let_def Transport_IsConnected_def)
      from waitResponse_outcome [OF this] show ?thesis by simp
    qed
  qed
qed


lemma sendRequest_failure:
  "sendRequest impl ctx method params c = Some (Inl e, c') \<Longrightarrow> failure_effect c e c'"
  by (drule sendRequest_outcome) (auto simp: failure_effect_def)

lemma parseResult_error:
  "parseResult decode result = Inl e \<Longrightarrow> \<not> transport_failure e \<and> \<not> timeout_failure e"
  by (auto simp: parseResult_def split: option.splits sum.splits)

lemma ListTools_failure:
  "ListTools impl decode ctx c = Some (Inl e, c') \<Longrightarrow> failure_effect c e c'"
  unfolding ListTools_def
  by (auto simp: failure_effect_def split: if_splits option.splits sum.splits
           dest!: sendRequest_outcome parseResult_error)


lemma ListResources_failure:
  "ListResources impl decode ctx c = Some (Inl e, c') \<Longrightarrow> failure_effect c e c'"
  unfolding ListResources_def
  by (auto simp: failure_effect_def split: if_splits option.splits sum.splits
           dest!: sendRequest_outcome parseResult_error)

lemma ListPrompts_failure:
  "ListPrompts impl decode ctx c = Some (Inl e, c') \<Longrightarrow> failure_effect c e c'"
  unfolding ListPrompts_def
  by (auto simp: failure_effect_def split: if_splits option.splits sum.splits
           dest!: sendRequest_outcome parseResult_error)

lemma GetPrompt_failure:
  "GetPrompt impl decode ctx name arguments c = Some (Inl e, c') \<Longrightarrow> failure_effect c e c'"
  unfolding GetPrompt_def
  by (auto simp: failure_effect_def split: if_splits option.splits sum.splits
           dest!: sendRequest_outcome parseResult_error)

lemma ReadResource_failure:
  "ReadResource impl decode ctx uri c = Some (Inl e, c') \<Longrightarrow> failure_effect c e c'"
  unfolding ReadResource_def
  by (auto simp: failure_effect_def split: if_splits option.splits sum.splits
           dest!: sendRequest_outcome parseResult_error)

lemma CallTool_failure:
  "CallTool impl decode ctx name arguments c = Some (Inl e, c') \<Longrightarrow> failure_effect c e c'"
  unfolding CallTool_def
  by (auto simp: failure_effect_def CheckConnection_def Transport_IsConnected_def
           split: if_splits option.splits sum.splits
           dest!: sendRequest_outcome parseResult_error)

lemma Initialize_failure:
  "Initialize impl decode ctx clientInfo c = Some (Some e, c') \<Longrightarrow> transport_failure e \<or> timeout_failure e
     \<Longrightarrow> failure_effect c e c'"
  unfolding Initialize_def
  by (auto simp: failure_effect_def Let_def split: if_splits option.splits sum.splits
           dest!: sendRequest_outcome parseResult_error)

lemma ListTools_send_fails:
  "ListTools (\<lambda>f. 0) (\<lambda>j. Inr j) background (ready_client (scripted [Some ''broken pipe''] [])) =
     Some (Inl (Wrap ''list tools request failed''
                  (Wrap ''failed to send request'' (ErrExternal ''broken pipe''))),
           (ready_client (scripted [] []))
             \<lparr>requestID := 1, connected := False, initialized := False,
              transport := (scripted [] [])
                \<lparr>t_calls := [CallIsConnected,
                              CallSend (NewRequest (IDInt64 1) ''tools/list'' ListToolsRequest)]\<rparr>\<rparr>)"
  by (simp add: ListTools_def client_defs example_defs)


section \<open>Failures of the transport\<close>

text \<open>
  C1 (as amended). When \<open>sendRequest\<close>, \<open>Initialize\<close> or one of the six operations returns
  the error of a failed transport \<open>Send\<close> or \<open>Receive\<close> of the request, the client has
  been marked as disconnected: the connected flag and the initialized flag are cleared.
  The stored server identity and capabilities are not cleared; they stay as they were.
\<close>

theorem transport_failure_marks_flags:
  "(sendRequest impl ctx method params c = Some (Inl e, c') \<and> transport_failure e \<longrightarrow>
      marked_disconnected c c') \<and>
   (Initialize impl dI ctx clientInfo c = Some (Some e, c') \<and> transport_failure e \<longrightarrow>
      marked_disconnected c c') \<and>
   (ListTools impl d1 ctx c = Some (Inl e, c') \<and> transport_failure e \<longrightarrow>
      marked_disconnected c c') \<and>
   (CallTool impl d2 ctx name arguments c = Some (Inl e, c') \<and> transport_failure e \<longrightarrow>
      marked_disconnected c c') \<and>
   (ListResources impl d3 ctx c = Some (Inl e, c') \<and> transport_failure e \<longrightarrow>
      marked_disconnected c c') \<and>
   (ReadResource impl d4 ctx uri c = Some (Inl e, c') \<and> transport_failure e \<longrightarrow>
      marked_disconnected c c') \<and>
   (ListPrompts impl d5 ctx c = Some (Inl e, c') \<and> transport_failure e \<longrightarrow>
      marked_disconnected c c') \<and>
   (GetPrompt impl d6 ctx name arguments c = Some (Inl e, c') \<and> transport_failure e \<longrightarrow>
      marked_disconnected c c')"
proof (intro conjI impI)
  assume "sendRequest impl ctx method params c = Some (Inl e, c') \<and> transport_failure e"
  then show "marked_disconnected c c'"
    using sendRequest_failure failure_effect_transport by blast
next
  assume "Initialize impl dI ctx clientInfo c = Some (Some e, c') \<and> transport_failure e"
  then show "marked_disconnected c c'"
    using Initialize_failure failure_effect_transport by blast
next
  assume "ListTools impl d1 ctx c = Some (Inl e, c') \<and> transport_failure e"
  then show "marked_disconnected c c'"
    using ListTools_failure failure_effect_transport by blast
next
  assume "CallTool impl d2 ctx name arguments c = Some (Inl e, c') \<and> transport_failure e"
  then show "marked_disconnected c c'"
    using CallTool_failure failure_effect_transport by blast
next
  assume "ListResources impl d3 ctx c = Some (Inl e, c') \<and> transport_failure e"
  then show "marked_disconnected c c'"
    using ListResources_failure failure_effect_transport by blast
next
  assume "ReadResource impl d4 ctx uri c = Some (Inl e, c') \<and> transport_failure e"
  then show "marked_disconnected c c'"
    using ReadResource_failure failure_effect_transport by blast
next
  assume "ListPrompts impl d5 ctx c = Some (Inl e, c') \<and> transport_failure e"
  then show "marked_disconnected c c'"
    using ListPrompts_failure failure_effect_transport by blast
next
  assume "GetPrompt impl d6 ctx name arguments c = Some (Inl e, c') \<and> transport_failure e"
  then show "marked_disconnected c c'"
    using GetPrompt_failure failure_effect_transport by blast
qed

theorem transport_failure_marks_flags_witness:
  "ListTools (\<lambda>f. 0) (\<lambda>j. Inr j) background (ready_client (scripted [Some ''broken pipe''] [])) =
     Some (Inl (Wrap ''list tools request failed''
                  (Wrap ''failed to send request'' (ErrExternal ''broken pipe''))),
           (ready_client (scripted [] []))
             \<lparr>requestID := 1, connected := False, initialized := False,
              transport := (scripted [] [])
                \<lparr>t_calls := [CallIsConnected,
                              CallSend (NewRequest (IDInt64 1) ''tools/list'' ListToolsRequest)]\<rparr>\<rparr>) \<and>
   transport_failure (Wrap ''list tools request failed''
                        (Wrap ''failed to send request'' (ErrExternal ''broken pipe''))) \<and>
   marked_disconnected (ready_client (scripted [Some ''broken pipe''] []))
     ((ready_client (scripted [] []))
        \<lparr>requestID := 1, connected := False, initialized := False,
         transport := (scripted [] [])
           \<lparr>t_calls := [CallIsConnected,
                         CallSend (NewRequest (IDInt64 1) ''tools/list'' ListToolsRequest)]\<rparr>\<rparr>)"
proof -
  let ?c = "ready_client (scripted [Some ''broken pipe''] [])"
  let ?e = "Wrap ''list tools request failed''
              (Wrap ''failed to send request'' (ErrExternal ''broken pipe''))"
  let ?c' = "(ready_client (scripted [] []))
               \<lparr>requestID := 1, connected := False, initialized := False,
                transport := (scripted [] [])
                  \<lparr>t_calls := [CallIsConnected,
                                CallSend (NewRequest (IDInt64 1) ''tools/list'' ListToolsRequest)]\<rparr>\<rparr>"
  have "ListTools (\<lambda>f. 0) (\<lambda>j. Inr j) background ?c = Some (Inl ?e, ?c') \<and> transport_failure ?e
          \<longrightarrow> marked_disconnected ?c ?c'"
    by (rule transport_failure_marks_flags [THEN conjunct2, THEN conjunct2, THEN conjunct1])
  then show ?thesis using ListTools_send_fails by simp
qed

theorem transport_failure_clears_serverInfo_counterexample:
  "ListTools (\<lambda>f. 0) (\<lambda>j. Inr j) background (ready_client (scripted [Some ''broken pipe''] []))
     \<noteq> None \<and>
   fst (the (ListTools (\<lambda>f. 0) (\<lambda>j. Inr j) background
               (ready_client (scripted [Some ''broken pipe''] [])))) =
     Inl (Wrap ''list tools request failed''
            (Wrap ''failed to send request'' (ErrExternal ''broken pipe''))) \<and>
   serverInfo (snd (the (ListTools (\<lambda>f. 0) (\<lambda>j. Inr j) background
                           (ready_client (scripted [Some ''broken pipe''] []))))) =
     Some demo_server \<and>
   serverCapabilities (snd (the (ListTools (\<lambda>f. 0) (\<lambda>j. Inr j) background
                                   (ready_client (scripted [Some ''broken pipe''] []))))) =
     Some demo_capabilities"
  by (simp add: ListTools_send_fails) (simp add: ready_client_def)

section \<open>Timeouts\<close>






section \<open>Preconditions\<close>

text \<open>
  C8. \<open>Initialize\<close> on a client that is not connected returns the error "client not
  connected", and each of the six operations on a client that is not initialized returns
  the error "client not initialized"; the client, and so its transport with the record
  of the calls made on it, is returned as it was: nothing is sent or received.
\<close>

theorem precondition_errors_without_io:
  "(\<not> IsConnected c \<longrightarrow> Initialize impl dI ctx clientInfo c = Some (Some ErrNotConnected, c)) \<and>
   (\<not> IsInitialized c \<longrightarrow>
      ListTools impl d1 ctx c = Some (Inl ErrClientNotInitialized, c) \<and>
      CallTool impl d2 ctx name arguments c = Some (Inl ErrClientNotInitialized, c) \<and>
      ListResources impl d3 ctx c = Some (Inl ErrClientNotInitialized, c) \<and>
      ReadResource impl d4 ctx uri c = Some (Inl ErrClientNotInitialized, c) \<and>
      ListPrompts impl d5 ctx c = Some (Inl ErrClientNotInitialized, c) \<and>
      GetPrompt impl d6 ctx name arguments c = Some (Inl ErrClientNotInitialized, c)) \<and>
   error_text ErrNotConnected = ''client not connected'' \<and>
   error_text ErrClientNotInitialized = ''client not initialized''"
  by (simp add: Initialize_def ListTools_def CallTool_def ListResources_def ReadResource_def
        ListPrompts_def GetPrompt_def)

theorem precondition_errors_without_io_witness:
  "\<not> IsConnected (NewClient idle_transport default_config) \<and>
   \<not> IsInitialized (NewClient idle_transport default_config) \<and>
   Initialize (\<lambda>f. 0) (\<lambda>j. Inl ''unused'') background (ClientInfo ''my-app'' ''1.0.0'')
     (NewClient idle_transport default_config) =
     Some (Some ErrNotConnected, NewClient idle_transport default_config) \<and>
   CallTool (\<lambda>f. 0) (\<lambda>j. Inr j) background ''search'' [] (NewClient idle_transport default_config) =
     Some (Inl ErrClientNotInitialized, NewClient idle_transport default_config) \<and>
   t_calls (transport (NewClient idle_transport default_config)) = []"
proof -
  let ?c = "NewClient idle_transport default_config"
  have a: "\<not> IsConnected ?c" by (simp add: IsConnected_def NewClient_def)
  have b: "\<not> IsInitialized ?c" by (simp add: IsInitialized_def NewClient_def)
  have c: "t_calls (transport ?c) = []" by (simp add: NewClient_def idle_transport_def)
  note i = precondition_errors_without_io [where c = ?c, THEN conjunct1, THEN mp, OF a]
  note o = precondition_errors_without_io [where c = ?c, THEN conjunct2, THEN conjunct1, THEN mp, OF b]
  show ?thesis using a b c by (simp add: i o)
qed

section \<open>Idempotence\<close>

lemma Disconnect_ready:
  "Disconnect (ready_client (scripted [] [])) =
     (None,
      \<lparr>transport = (scripted [] [])\<lparr>t_connected := False, t_calls := [CallClose]\<rparr>,
       serverInfo = None, serverCapabilities = None, connected = False, initialized = False,
       requestID = 0, timeout = 30\<rparr>)"
  by (simp add: Disconnect_def Transport_Close_def example_defs)

text \<open>
  C9. A second \<open>Disconnect\<close> returns no error and leaves the client as the first one left
  it, as does any \<open>Disconnect\<close> of a client that is not connected; and \<open>Close\<close> of a TCP,
  STDIO or WebSocket transport that is not connected, as a newly made one is, returns no
  error and leaves the transport as it was.
\<close>

theorem Disconnect_and_Close_idempotent:
  "Disconnect (snd (Disconnect c)) = (None, snd (Disconnect c)) \<and>
   (\<not> connected c \<longrightarrow> Disconnect c = (None, c)) \<and>
   (\<not> tcp_connected t \<longrightarrow> TCPTransport_Close t = (None, t)) \<and>
   (\<not> stdio_connected s \<longrightarrow> StdioTransport_Close s = (None, [], s)) \<and>
   (\<not> ws_connected w \<longrightarrow> WebSocketTransport_Close w = Inr (None, w)) \<and>
   \<not> tcp_connected (NewTCPTransport host port) \<and>
   \<not> stdio_connected (NewStdioTransport command args) \<and>
   \<not> ws_connected (NewWebSocketTransport wsURL)"
  by (simp add: Disconnect_def Transport_Close_def TCPTransport_Close_def StdioTransport_Close_def
        WebSocketTransport_Close_def NewTCPTransport_def NewStdioTransport_def
        NewWebSocketTransport_def split: option.splits)

theorem Disconnect_and_Close_idempotent_witness:
  "Disconnect (snd (Disconnect (ready_client (scripted [] [])))) =
     (None,
      \<lparr>transport = (scripted [] [])\<lparr>t_connected := False, t_calls := [CallClose]\<rparr>,
       serverInfo = None, serverCapabilities = None, connected = False, initialized = False,
       requestID = 0, timeout = 30\<rparr>) \<and>
   TCPTransport_Close (NewTCPTransport ''localhost'' 8811) = (None, NewTCPTransport ''localhost'' 8811) \<and>
   StdioTransport_Close (NewStdioTransport ''echo'' [''test'']) =
     (None, [], NewStdioTransport ''echo'' [''test'']) \<and>
   WebSocketTransport_Close (NewWebSocketTransport ''ws://localhost:8811/mcp'') =
     Inr (None, NewWebSocketTransport ''ws://localhost:8811/mcp'')"
  using
    Disconnect_and_Close_idempotent [where c = "ready_client (scripted [] [])"
      and t = "NewTCPTransport ''localhost'' 8811" and s = "NewStdioTransport ''echo'' [''test'']"
      and w = "NewWebSocketTransport ''ws://localhost:8811/mcp''"
      and host = "''localhost''" and port = 8811 and command = "''echo''" and args = "[''test'']"
      and wsURL = "''ws://localhost:8811/mcp''"]
  by (simp add: Disconnect_ready)

section \<open>Discovery\<close>

lemma DiscoverTCPServers_none:
  "\<forall>port\<in>set ports. \<not> isPortOpen env host port \<Longrightarrow> DiscoverTCPServers env host ports = []"
  by (induction ports) auto

lemma docker_servers_none:
  "\<forall>container\<in>set containers. \<not> isMCPContainer ToLower container \<Longrightarrow>
     docker_servers ToLower containers = []"
  by (induction containers) auto

lemma DiscoverAll_bridge_port:
  "DiscoverAll bridge_port_host (\<lambda>s. s) ''localhost'' =
     [\<lparr>srv_Name = ''TCP Server localhost:8811'', srv_Type = ''tcp'', srv_Address = ''localhost'',
       srv_Port = 8811, srv_Transport = TCP (NewTCPTransport ''localhost'' 8811),
       srv_Description = ''MCP server on TCP localhost:8811''\<rparr>,
      dockerMCP]"
  by (simp add: DiscoverAll_def DiscoverCommonPorts_def commonPorts_def isPortOpen_def
        bridge_port_host_def DiscoverDockerServers_def isDockerAvailable_def
        getDockerContainers_def isMCPContainer_def itoa_def utoa.simps digit_char_def)

text \<open>
  C6. \<open>DiscoverAll\<close> returns the port-probed descriptors, then the container-derived
  descriptors, then the static bridge descriptor as the last element, whatever was found
  before (nothing is removed as a duplicate); on a host with no open common port and no
  matching container (or no Docker) the result is that one descriptor.
\<close>

theorem DiscoverAll_appends_bridge:
  "DiscoverAll env ToLower host =
     DiscoverCommonPorts env host @ DiscoverDockerServers env ToLower @ [dockerMCP] \<and>
   last (DiscoverAll env ToLower host) = dockerMCP \<and>
   length (DiscoverAll env ToLower host) =
     length (DiscoverCommonPorts env host) + length (DiscoverDockerServers env ToLower) + 1 \<and>
   ((\<forall>port\<in>set commonPorts. \<not> isPortOpen env host port) \<and>
    (\<not> isDockerAvailable env \<or>
     (\<forall>container\<in>set (getDockerContainers env). \<not> isMCPContainer ToLower container)) \<longrightarrow>
      DiscoverAll env ToLower host = [dockerMCP])"
proof (intro conjI impI)
  show a: "DiscoverAll env ToLower host =
     DiscoverCommonPorts env host @ DiscoverDockerServers env ToLower @ [dockerMCP]"
    by (simp add: DiscoverAll_def)
  show "last (DiscoverAll env ToLower host) = dockerMCP" by (simp add: a)
  show "length (DiscoverAll env ToLower host) =
     length (DiscoverCommonPorts env host) + length (DiscoverDockerServers env ToLower) + 1"
    by (simp add: a)
  assume h: "(\<forall>port\<in>set commonPorts. \<not> isPortOpen env host port) \<and>
    (\<not> isDockerAvailable env \<or>
     (\<forall>container\<in>set (getDockerContainers env). \<not> isMCPContainer ToLower container))"
  have "DiscoverCommonPorts env host = []"
    using h by (simp add: DiscoverCommonPorts_def DiscoverTCPServers_none)
  moreover have "DiscoverDockerServers env ToLower = []"
    using h by (auto simp: DiscoverDockerServers_def docker_servers_none)
  ultimately show "DiscoverAll env ToLower host = [dockerMCP]" by (simp add: a)
qed

theorem DiscoverAll_appends_bridge_witness:
  "filter (isPortOpen bridge_only_host ''localhost'') commonPorts = [] \<and>
   \<not> isDockerAvailable bridge_only_host \<and>
   DiscoverAll bridge_only_host (\<lambda>s. s) ''localhost'' = [dockerMCP] \<and>
   DiscoverAll bridge_port_host (\<lambda>s. s) ''localhost'' =
     [\<lparr>srv_Name = ''TCP Server localhost:8811'', srv_Type = ''tcp'', srv_Address = ''localhost'',
       srv_Port = 8811, srv_Transport = TCP (NewTCPTransport ''localhost'' 8811),
       srv_Description = ''MCP server on TCP localhost:8811''\<rparr>,
      dockerMCP] \<and>
   srv_Transport dockerMCP = TCP (NewTCPTransport ''localhost'' 8811)"
proof -
  have p: "\<forall>port\<in>set commonPorts. \<not> isPortOpen bridge_only_host ''localhost'' port"
    by (simp add: isPortOpen_def bridge_only_host_def)
  have d: "\<not> isDockerAvailable bridge_only_host"
    by (simp add: isDockerAvailable_def bridge_only_host_def)
  have "DiscoverAll bridge_only_host (\<lambda>s. s) ''localhost'' = [dockerMCP]"
    using DiscoverAll_appends_bridge [of bridge_only_host "\<lambda>s. s" "''localhost''"] p d by blast
  moreover have "filter (isPortOpen bridge_only_host ''localhost'') commonPorts = []"
    using p by (simp add: filter_empty_conv)
  ultimately show ?thesis
    using d DiscoverAll_bridge_port by (simp add: dockerMCP_def CreateDockerMCPTransport_def)
qed


section \<open>Closing the STDIO transport\<close>

lemma append_err_failures: "append_err (failures rs) r = failures (rs @ [r])"
  by (induction rs rule: failures.induct) (auto simp: append_err_def split: option.splits)

lemma StdioTransport_Connect_handles:
  assumes "StdioTransport_Connect os s0 = (None, s)" and "\<not> stdio_connected s0"
  shows "\<exists>pin pout perr proc.
           stdio_connected s \<and> stdio_stdin s = Some pin \<and> stdio_stdout s = Some pout \<and>
           stdio_stderr s = Some perr \<and> stdio_cmd s = Some \<lparr>cmd_Process = Some proc\<rparr>"
  using assms
  by (auto simp: StdioTransport_Connect_def Let_def split: sum.splits)

lemma connected_stdio_spawn_child:
  "connected_stdio (spawn_child r_in r_out r_err r_kill r_wait) =
     \<lparr>stdio_command = ''mcp-server'', stdio_args = [],
      stdio_cmd = Some \<lparr>cmd_Process = Some \<lparr>kill_result = r_kill, wait_result = r_wait\<rparr>\<rparr>,
      stdio_stdin = Some \<lparr>pipe_close_result = r_in\<rparr>,
      stdio_stdout = Some \<lparr>pipe_close_result = r_out\<rparr>,
      stdio_stderr = Some \<lparr>pipe_close_result = r_err\<rparr>,
      stdio_reader = Some \<lparr>pipe_close_result = r_out\<rparr>,
      stdio_writer = Some \<lparr>pipe_close_result = r_in\<rparr>,
      stdio_connected = True\<rparr>"
  by (simp add: connected_stdio_def spawn_child_def StdioTransport_Connect_def
        NewStdioTransport_def)

text \<open>
  C7 (as amended). A STDIO transport connected by \<open>Connect\<close> holds its three pipes and its
  process, and \<open>Close\<close> of such a transport closes the stdin pipe, closes the stdout pipe,
  closes the stderr pipe, kills the child process and waits for it, in this order, whatever
  fails on the way; the error it returns aggregates the errors of the three closes and of
  the kill. The result of the wait is not among them.
\<close>

theorem StdioTransport_Close_order_and_errors:
  "(StdioTransport_Connect os s0 = (None, s) \<and> \<not> stdio_connected s0 \<longrightarrow>
      (\<exists>pin pout perr proc.
         stdio_connected s \<and> stdio_stdin s = Some pin \<and> stdio_stdout s = Some pout \<and>
         stdio_stderr s = Some perr \<and> stdio_cmd s = Some \<lparr>cmd_Process = Some proc\<rparr>)) \<and>
   (stdio_connected s \<and> stdio_stdin s = Some pin \<and> stdio_stdout s = Some pout \<and>
    stdio_stderr s = Some perr \<and> stdio_cmd s = Some \<lparr>cmd_Process = Some proc\<rparr> \<longrightarrow>
      StdioTransport_Close s =
        (if failures [pipe_close_result pin, pipe_close_result pout, pipe_close_result perr,
                      kill_result proc] = []
         then None
         else Some (ErrDuringClose
                (failures [pipe_close_result pin, pipe_close_result pout, pipe_close_result perr,
                           kill_result proc])),
         [CloseStdin, CloseStdout, CloseStderr, KillProcess, WaitProcess],
         stdio_released s))"
proof (intro conjI impI)
  assume "StdioTransport_Connect os s0 = (None, s) \<and> \<not> stdio_connected s0"
  then show "\<exists>pin pout perr proc.
         stdio_connected s \<and> stdio_stdin s = Some pin \<and> stdio_stdout s = Some pout \<and>
         stdio_stderr s = Some perr \<and> stdio_cmd s = Some \<lparr>cmd_Process = Some proc\<rparr>"
    using StdioTransport_Connect_handles by blast
next
  assume h: "stdio_connected s \<and> stdio_stdin s = Some pin \<and> stdio_stdout s = Some pout \<and>
    stdio_stderr s = Some perr \<and> stdio_cmd s = Some \<lparr>cmd_Process = Some proc\<rparr>"
  have e: "append_err (append_err (append_err (append_err [] (pipe_close_result pin))
              (pipe_close_result pout)) (pipe_close_result perr)) (kill_result proc) =
           failures [pipe_close_result pin, pipe_close_result pout, pipe_close_result perr,
                     kill_result proc]"
    using append_err_failures [of "[]"] by (simp add: append_err_failures)
  show "StdioTransport_Close s =
        (if failures [pipe_close_result pin, pipe_close_result pout, pipe_close_result perr,
                      kill_result proc] = []
         then None
         else Some (ErrDuringClose
                (failures [pipe_close_result pin, pipe_close_result pout, pipe_close_result perr,
                           kill_result proc])),
         [CloseStdin, CloseStdout, CloseStderr, KillProcess, WaitProcess],
         stdio_released s)"
    using h by (simp add: StdioTransport_Close_def stdio_released_def e del: failures.simps)
qed


theorem StdioTransport_Close_order_and_errors_witness:
  "StdioTransport_Connect
     (spawn_child (Some ''close |1: file already closed'') None None
        (Some ''os: process already finished'') None)
     (NewStdioTransport ''mcp-server'' []) =
     (None,
      connected_stdio (spawn_child (Some ''close |1: file already closed'') None None
        (Some ''os: process already finished'') None)) \<and>
   StdioTransport_Close
     (connected_stdio (spawn_child (Some ''close |1: file already closed'') None None
        (Some ''os: process already finished'') None)) =
     (Some (ErrDuringClose [''close |1: file already closed'', ''os: process already finished'']),
      [CloseStdin, CloseStdout, CloseStderr, KillProcess, WaitProcess],
      NewStdioTransport ''mcp-server'' [])"
proof -
  let ?os = "spawn_child (Some ''close |1: file already closed'') None None
               (Some ''os: process already finished'') None"
  let ?s = "connected_stdio ?os"
  have c: "StdioTransport_Connect ?os (NewStdioTransport ''mcp-server'' []) = (None, ?s)"
    by (simp add: connected_stdio_def spawn_child_def StdioTransport_Connect_def
          NewStdioTransport_def)
  have h: "stdio_connected ?s \<and> stdio_stdin ?s = Some \<lparr>pipe_close_result = Some ''close |1: file already closed''\<rparr> \<and>
           stdio_stdout ?s = Some \<lparr>pipe_close_result = None\<rparr> \<and>
           stdio_stderr ?s = Some \<lparr>pipe_close_result = None\<rparr> \<and>
           stdio_cmd ?s = Some \<lparr>cmd_Process =
             Some \<lparr>kill_result = Some ''os: process already finished'', wait_result = None\<rparr>\<rparr>"
    by (simp add: connected_stdio_spawn_child)
  note t = StdioTransport_Close_order_and_errors [THEN conjunct2, THEN mp, OF h]
  show ?thesis using c
    by (simp add: t) (simp add: connected_stdio_spawn_child stdio_released_def NewStdioTransport_def)
qed

theorem StdioTransport_Close_drops_wait_error_counterexample:
  "stdio_connected (connected_stdio (spawn_child None None None None (Some ''signal: killed''))) \<and>
   stdio_cmd (connected_stdio (spawn_child None None None None (Some ''signal: killed''))) =
     Some \<lparr>cmd_Process = Some \<lparr>kill_result = None, wait_result = Some ''signal: killed''\<rparr>\<rparr> \<and>
   StdioTransport_Close (connected_stdio (spawn_child None None None None (Some ''signal: killed''))) =
     (None, [CloseStdin, CloseStdout, CloseStderr, KillProcess, WaitProcess],
      NewStdioTransport ''mcp-server'' [])"
  by (simp add: connected_stdio_spawn_child StdioTransport_Close_def append_err_def
        NewStdioTransport_def)

section \<open>The handshake\<close>

lemma Transport_Send_calls:
  "Transport_Send m t = Some (r, t') \<Longrightarrow> t_calls t' = t_calls t @ [CallSend m]"
  by (auto simp: Transport_Send_def split: list.splits)

lemma Initialize_demo:
  "Initialize (\<lambda>f. 0) demo_decode background (ClientInfo ''my-app'' ''1.0.0'')
     (connected_client (scripted [None, r] [RecvMessage 0 demo_response])) =
     Some (map_option (\<lambda>err. Wrap ''failed to send initialized notification'' (ErrExternal err)) r,
           (ready_client
              ((scripted [] [])
                 \<lparr>t_calls :=
                    [CallIsConnected,
                     CallSend (NewRequest (IDInt64 1) ''initialize''
                       (InitializeRequest mcp_Version (ClientCapabilities [] (Some ()))
                          (ClientInfo ''my-app'' ''1.0.0''))),
                     CallReceive,
                     CallSend initialized_notification]\<rparr>))
             \<lparr>requestID := 1\<rparr>)"
  by (cases r)
     (simp_all add: Initialize_def client_defs example_defs connected_client_def
        demo_response_def demo_decode_def initialized_notification_def waitResponse.simps
        f64_trunc_def)

text \<open>
  C3 (as amended). Whenever \<open>Initialize\<close> returns without error, the client is Initialized
  with the identity and capabilities of the server, and the "initialized" notification
  is the last message it handed to the transport. The initialized flag is set when the
  response to the initialize request has been parsed, before the notification is sent;
  an \<open>Initialize\<close> that fails earlier than the notification does not set it.
\<close>

theorem Initialize_success_after_notification:
  "(Initialize impl decode ctx clientInfo c = Some (None, c') \<longrightarrow>
      IsInitialized c' \<and> serverInfo c' \<noteq> None \<and> serverCapabilities c' \<noteq> None \<and>
      t_calls (transport c') \<noteq> [] \<and>
      last (t_calls (transport c')) = CallSend initialized_notification) \<and>
   (Initialize impl decode ctx clientInfo c = Some (Some e, c') \<and>
    \<not> notification_failure e \<and>
    \<not> IsInitialized c \<longrightarrow> \<not> IsInitialized c')"
proof (rule conjI; rule impI)
  assume "Initialize impl decode ctx clientInfo c = Some (None, c')"
  then show "IsInitialized c' \<and> serverInfo c' \<noteq> None \<and> serverCapabilities c' \<noteq> None \<and>
      t_calls (transport c') \<noteq> [] \<and>
      last (t_calls (transport c')) = CallSend initialized_notification"
    unfolding Initialize_def initialized_notification_def
    by (auto simp: Let_def IsInitialized_def split: if_splits option.splits sum.splits
             dest!: Transport_Send_calls)
next
  assume "Initialize impl decode ctx clientInfo c = Some (Some e, c') \<and>
    \<not> notification_failure e \<and>
    \<not> IsInitialized c"
  then show "\<not> IsInitialized c'"
    unfolding Initialize_def
    by (auto simp: Let_def IsInitialized_def split: if_splits option.splits sum.splits
             dest!: sendRequest_outcome)
qed


theorem Initialize_success_after_notification_witness:
  "Initialize (\<lambda>f. 0) demo_decode background (ClientInfo ''my-app'' ''1.0.0'')
     (connected_client (scripted [None, None] [RecvMessage 0 demo_response])) \<noteq> None \<and>
   fst (the (Initialize (\<lambda>f. 0) demo_decode background (ClientInfo ''my-app'' ''1.0.0'')
     (connected_client (scripted [None, None] [RecvMessage 0 demo_response])))) = None \<and>
   IsInitialized (snd (the (Initialize (\<lambda>f. 0) demo_decode background (ClientInfo ''my-app'' ''1.0.0'')
     (connected_client (scripted [None, None] [RecvMessage 0 demo_response]))))) \<and>
   GetServerInfo (snd (the (Initialize (\<lambda>f. 0) demo_decode background (ClientInfo ''my-app'' ''1.0.0'')
     (connected_client (scripted [None, None] [RecvMessage 0 demo_response]))))) = Some demo_server \<and>
   last (t_calls (transport (snd (the (Initialize (\<lambda>f. 0) demo_decode background
     (ClientInfo ''my-app'' ''1.0.0'')
     (connected_client (scripted [None, None] [RecvMessage 0 demo_response]))))))) =
     CallSend initialized_notification"
proof -
  let ?c = "connected_client (scripted [None, None] [RecvMessage 0 demo_response])"
  let ?c' = "(ready_client
              ((scripted [] [])
                 \<lparr>t_calls :=
                    [CallIsConnected,
                     CallSend (NewRequest (IDInt64 1) ''initialize''
                       (InitializeRequest mcp_Version (ClientCapabilities [] (Some ()))
                          (ClientInfo ''my-app'' ''1.0.0''))),
                     CallReceive,
                     CallSend initialized_notification]\<rparr>))
             \<lparr>requestID := 1\<rparr>"
  have r: "Initialize (\<lambda>f. 0) demo_decode background (ClientInfo ''my-app'' ''1.0.0'') ?c =
             Some (None, ?c')"
    using Initialize_demo [of None] by simp
  note t = Initialize_success_after_notification [THEN conjunct1, THEN mp, OF r]
  have g: "GetServerInfo ?c' = Some demo_server" by (simp add: GetServerInfo_def ready_client_def)
  show ?thesis using t g by (simp add: r)
qed

theorem Initialize_flag_before_notification_counterexample:
  "Initialize (\<lambda>f. 0) demo_decode background (ClientInfo ''my-app'' ''1.0.0'')
     (connected_client (scripted [None, Some ''broken pipe''] [RecvMessage 0 demo_response])) \<noteq> None \<and>
   fst (the (Initialize (\<lambda>f. 0) demo_decode background (ClientInfo ''my-app'' ''1.0.0'')
     (connected_client (scripted [None, Some ''broken pipe''] [RecvMessage 0 demo_response])))) =
     Some (Wrap ''failed to send initialized notification'' (ErrExternal ''broken pipe'')) \<and>
   \<not> IsInitialized (connected_client (scripted [None, Some ''broken pipe''] [RecvMessage 0 demo_response])) \<and>
   IsInitialized (snd (the (Initialize (\<lambda>f. 0) demo_decode background (ClientInfo ''my-app'' ''1.0.0'')
     (connected_client (scripted [None, Some ''broken pipe''] [RecvMessage 0 demo_response])))))"
  by (simp add: Initialize_demo) (simp add: IsInitialized_def ready_client_def connected_client_def)

section \<open>Request identifiers\<close>

lemma sendRequest_requestID:
  "sendRequest impl ctx method params c = Some (r, c') \<Longrightarrow> requestID c' = requestID c + 1"
  by (drule sendRequest_outcome) (cases r; simp)

lemma upt_Suc_shift: "[0..<Suc n] = 0 # map Suc [0..<n]"
  by (simp add: upt_conv_Cons map_Suc_upt del: upt_Suc)

lemma issue_requests_ids:
  "issue_requests impl rs c = Some (ids, c') \<Longrightarrow>
     ids = map (\<lambda>k. requestID c + word_of_nat (Suc k)) [0..<length rs]"
proof (induction rs arbitrary: c ids)
  case Nil
  then show ?case by simp
next
  case (Cons a rs)
  obtain ctx m p where a: "a = (ctx, m, p)" by (cases a)
  from Cons.prems a obtain r c1 ids' where
    s: "sendRequest impl ctx m p c = Some (r, c1)" and
    i: "issue_requests impl rs c1 = Some (ids', c')" and
    e: "ids = requestID c1 # ids'"
    by (auto split: option.splits)
  have c1: "requestID c1 = requestID c + 1" using s by (rule sendRequest_requestID)
  have "ids' = map (\<lambda>k. requestID c1 + word_of_nat (Suc k)) [0..<length rs]"
    using Cons.IH [OF i] .
  then have t: "ids' = map (\<lambda>k. requestID c + word_of_nat (Suc (Suc k))) [0..<length rs]"
    by (simp add: c1 add.assoc)
  have L: "[0..<length (a # rs)] = 0 # map Suc [0..<length rs]"
    unfolding length_Cons by (rule upt_Suc_shift)
  show ?case unfolding L using e c1 t by (simp add: comp_def del: upt_Suc)
qed

lemma sint_word_of_nat_64: "k < 2 ^ 63 \<Longrightarrow> sint (word_of_nat k :: int64) = int k"
proof -
  assume "k < 2 ^ 63"
  then have "int k < 2 ^ 63" by (metis of_nat_less_iff of_nat_numeral of_nat_power)
  then have "sint (word_of_int (int k) :: int64) = int k"
    by (intro sint_word_of_int_64) auto
  then show ?thesis by simp
qed

lemma issue_two_requests:
  "map_option fst
     (issue_requests (\<lambda>f. 0) two_requests (NewClient (scripted [None, None] two_responses) default_config)) =
   Some [1, 2]"
  by (simp add: two_requests_def two_responses_def NewClient_def default_config_def client_defs
        example_defs demo_response_def waitResponse.simps f64_trunc_def ParseInt_def digit_val_def)

text \<open>
  C5 (as amended). The requests issued through a new client, as long as there are fewer
  than \<open>2 ^ 63\<close> of them, are assigned the identifiers 1, 2, 3, ... in this order: the
  identifiers are strictly increasing and none is used twice.
\<close>

theorem request_ids_increase:
  "issue_requests impl rs (NewClient t config) = Some (ids, c') \<and> length rs < 2 ^ 63 \<longrightarrow>
     map sint ids = map int [1..<Suc (length rs)] \<and>
     sorted_wrt (<) (map sint ids) \<and> distinct ids"
proof
  assume h: "issue_requests impl rs (NewClient t config) = Some (ids, c') \<and> length rs < 2 ^ 63"
  have "ids = map (\<lambda>k. requestID (NewClient t config) + word_of_nat (Suc k)) [0..<length rs]"
    using h issue_requests_ids by blast
  then have "ids = map (\<lambda>k. word_of_nat (Suc k)) [0..<length rs]" by (simp add: NewClient_def)
  also have "\<dots> = map word_of_nat (map Suc [0..<length rs])" by (simp add: comp_def)
  finally have ids: "ids = map word_of_nat [1..<Suc (length rs)]" by (simp only: map_Suc_upt One_nat_def)
  have m: "map sint ids = map int [1..<Suc (length rs)]"
    unfolding ids using h by (auto simp: sint_word_of_nat_64)
  have s: "sorted_wrt (<) (map int [1..<Suc (length rs)])"
    by (simp add: sorted_wrt_map del: upt_Suc)
  have "distinct (map sint ids)" using s m by (simp add: strict_sorted_iff del: upt_Suc)
  then have "distinct ids" by (simp add: distinct_map)
  then show "map sint ids = map int [1..<Suc (length rs)] \<and>
     sorted_wrt (<) (map sint ids) \<and> distinct ids" using m s by simp
qed


theorem request_ids_increase_witness:
  "map_option fst
     (issue_requests (\<lambda>f. 0) two_requests (NewClient (scripted [None, None] two_responses) default_config)) =
   Some [1, 2] \<and>
   length two_requests < 2 ^ 63 \<and>
   map sint [1, 2 :: int64] = map int [1..<Suc (length two_requests)] \<and>
   sorted_wrt (<) (map sint [1, 2 :: int64]) \<and> distinct [1, 2 :: int64]"
proof -
  obtain c' where
    r: "issue_requests (\<lambda>f. 0) two_requests
          (NewClient (scripted [None, None] two_responses) default_config) = Some ([1, 2], c')"
    using issue_two_requests by (auto simp: map_option_case split: option.splits)
  have l: "length two_requests < 2 ^ 63" by (simp add: two_requests_def)
  from request_ids_increase [THEN mp, OF conjI, OF r l] issue_two_requests l
  show ?thesis by blast
qed

theorem request_id_wraps_counterexample:
  "sint (requestID exhausted_client) = 2 ^ 63 - 1 \<and>
   issue_requests (\<lambda>f. 0) [(background, ''tools/list'', ListToolsRequest)] exhausted_client \<noteq> None \<and>
   map sint (fst (the (issue_requests (\<lambda>f. 0) [(background, ''tools/list'', ListToolsRequest)]
                         exhausted_client))) = [- (2 ^ 63)]"
  by (simp add: exhausted_client_def NewClient_def idle_transport_def default_config_def
        sendRequest_def Transport_IsConnected_def)

end
